theory Spec2Isabelle
  imports Main "HOL-Library.Sublist"
begin

section \<open>JavaScript string primitives used by the proxy\<close>

text \<open>
  Strings are modelled as lists of 8-bit characters. The functions below embed the
  \<^verbatim>\<open>String.prototype\<close> methods the source calls, restricted to the argument shapes
  that occur in it (single-character separators, literal search strings).
\<close>

definition startsWith :: "string \<Rightarrow> string \<Rightarrow> bool" where
  "startsWith s p = prefix p s"

fun str_includes :: "string \<Rightarrow> string \<Rightarrow> bool" where
  "str_includes [] sub = (sub = [])"
| "str_includes (c # cs) sub = (prefix sub (c # cs) \<or> str_includes cs sub)"

text \<open>\<^verbatim>\<open>s.split(sep)\<close> for a one-character separator: never the empty array.\<close>

fun str_split :: "char \<Rightarrow> string \<Rightarrow> string list" where
  "str_split sep [] = [[]]"
| "str_split sep (c # cs) =
     (if c = sep then [] # str_split sep cs
      else (case str_split sep cs of
              [] \<Rightarrow> [[c]]
            | p # ps \<Rightarrow> (c # p) # ps))"

text \<open>\<^verbatim>\<open>parts.join(sep)\<close> for a one-character separator.\<close>

fun str_join :: "char \<Rightarrow> string list \<Rightarrow> string" where
  "str_join sep [] = []"
| "str_join sep [p] = p"
| "str_join sep (p # q # ps) = p @ sep # str_join sep (q # ps)"

text \<open>\<^verbatim>\<open>s.replace(c, r)\<close> with a one-character string pattern: the first occurrence only.\<close>

fun replaceFirst :: "char \<Rightarrow> string \<Rightarrow> string \<Rightarrow> string" where
  "replaceFirst c r [] = []"
| "replaceFirst c r (x # xs) = (if x = c then r @ xs else x # replaceFirst c r xs)"

text \<open>\<^verbatim>\<open>s.replace(/c/g, r)\<close> for a one-character pattern: every occurrence.\<close>

definition replaceAll :: "char \<Rightarrow> string \<Rightarrow> string \<Rightarrow> string" where
  "replaceAll c r s = concat (map (\<lambda>x. if x = c then r else [x]) s)"

section \<open>The platform table (config/platforms.js)\<close>

definition PLATFORMS :: "(string \<times> string) list" where
  "PLATFORMS = [
   (''gh'', ''https://github.com''),
   (''gist'', ''https://gist.github.com''),
   (''gl'', ''https://gitlab.com''),
   (''gitea'', ''https://gitea.com''),
   (''codeberg'', ''https://codeberg.org''),
   (''sf'', ''https://sourceforge.net''),
   (''aosp'', ''https://android.googlesource.com''),
   (''hf'', ''https://huggingface.co''),
   (''civitai'', ''https://civitai.com''),
   (''npm'', ''https://registry.npmjs.org''),
   (''pypi'', ''https://pypi.org''),
   (''pypi-files'', ''https://files.pythonhosted.org''),
   (''conda'', ''https://repo.anaconda.com''),
   (''conda-community'', ''https://conda.anaconda.org''),
   (''maven'', ''https://repo1.maven.org''),
   (''apache'', ''https://downloads.apache.org''),
   (''gradle'', ''https://plugins.gradle.org''),
   (''homebrew'', ''https://github.com/Homebrew''),
   (''homebrew-api'', ''https://formulae.brew.sh/api''),
   (''homebrew-bottles'', ''https://ghcr.io''),
   (''rubygems'', ''https://rubygems.org''),
   (''cran'', ''https://cran.r-project.org''),
   (''cpan'', ''https://www.cpan.org''),
   (''ctan'', ''https://tug.ctan.org''),
   (''golang'', ''https://proxy.golang.org''),
   (''nuget'', ''https://api.nuget.org''),
   (''crates'', ''https://crates.io''),
   (''packagist'', ''https://repo.packagist.org''),
   (''debian'', ''https://deb.debian.org''),
   (''ubuntu'', ''https://archive.ubuntu.com''),
   (''fedora'', ''https://dl.fedoraproject.org''),
   (''rocky'', ''https://download.rockylinux.org''),
   (''opensuse'', ''https://download.opensuse.org''),
   (''arch'', ''https://geo.mirror.pkgbuild.com''),
   (''arxiv'', ''https://arxiv.org''),
   (''fdroid'', ''https://f-droid.org''),
   (''jenkins'', ''https://updates.jenkins.io''),
   (''ip-openai'', ''https://api.openai.com''),
   (''ip-anthropic'', ''https://api.anthropic.com''),
   (''ip-gemini'', ''https://generativelanguage.googleapis.com''),
   (''ip-vertexai'', ''https://aiplatform.googleapis.com''),
   (''ip-cohere'', ''https://api.cohere.ai''),
   (''ip-mistralai'', ''https://api.mistral.ai''),
   (''ip-xai'', ''https://api.x.ai''),
   (''ip-githubmodels'', ''https://models.github.ai''),
   (''ip-nvidiaapi'', ''https://integrate.api.nvidia.com''),
   (''ip-perplexity'', ''https://api.perplexity.ai''),
   (''ip-braintrust'', ''https://api.braintrust.dev''),
   (''ip-groq'', ''https://api.groq.com''),
   (''ip-cerebras'', ''https://api.cerebras.ai''),
   (''ip-sambanova'', ''https://api.sambanova.ai''),
   (''ip-siray'', ''https://api.siray.ai''),
   (''ip-huggingface'', ''https://router.huggingface.co''),
   (''ip-together'', ''https://api.together.xyz''),
   (''ip-replicate'', ''https://api.replicate.com''),
   (''ip-fireworks'', ''https://api.fireworks.ai''),
   (''ip-nebius'', ''https://api.studio.nebius.ai''),
   (''ip-jina'', ''https://api.jina.ai''),
   (''ip-voyageai'', ''https://api.voyageai.com''),
   (''ip-falai'', ''https://fal.run''),
   (''ip-novita'', ''https://api.novita.ai''),
   (''ip-burncloud'', ''https://ai.burncloud.com''),
   (''ip-openrouter'', ''https://openrouter.ai''),
   (''ip-poe'', ''https://api.poe.com''),
   (''ip-featherlessai'', ''https://api.featherless.ai''),
   (''ip-hyperbolic'', ''https://api.hyperbolic.xyz''),
   (''cr-docker'', ''https://registry-1.docker.io''),
   (''cr-quay'', ''https://quay.io''),
   (''cr-gcr'', ''https://gcr.io''),
   (''cr-mcr'', ''https://mcr.microsoft.com''),
   (''cr-ecr'', ''https://public.ecr.aws''),
   (''cr-ghcr'', ''https://ghcr.io''),
   (''cr-gitlab'', ''https://registry.gitlab.com''),
   (''cr-redhat'', ''https://registry.redhat.io''),
   (''cr-oracle'', ''https://container-registry.oracle.com''),
   (''cr-cloudsmith'', ''https://docker.cloudsmith.io''),
   (''cr-digitalocean'', ''https://registry.digitalocean.com''),
   (''cr-vmware'', ''https://projects.registry.vmware.com''),
   (''cr-k8s'', ''https://registry.k8s.io''),
   (''cr-heroku'', ''https://registry.heroku.com''),
   (''cr-suse'', ''https://registry.suse.com''),
   (''cr-opensuse'', ''https://registry.opensuse.org''),
   (''cr-gitpod'', ''https://registry.gitpod.io'')
  ]"

text \<open>
  \<^verbatim>\<open>PLATFORMS\<close> is an ordinary object literal, so a property read
  \<^verbatim>\<open>PLATFORMS[key]\<close> also finds the members inherited from \<^verbatim>\<open>Object.prototype\<close>;
  all of them are truthy.
\<close>

definition objectPrototypeProps :: "string list" where
  "objectPrototypeProps =
    [''constructor'', ''__defineGetter__'', ''__defineSetter__'', ''hasOwnProperty'',
     ''__lookupGetter__'', ''__lookupSetter__'', ''isPrototypeOf'', ''propertyIsEnumerable'',
     ''toString'', ''valueOf'', ''__proto__'', ''toLocaleString'']"

definition platformKeys :: "string list" where
  "platformKeys = map fst PLATFORMS"

text \<open>Truthiness of \<^verbatim>\<open>PLATFORMS[key]\<close>: every base URL of the table is a non-empty string.\<close>

definition platformTruthy :: "string \<Rightarrow> bool" where
  "platformTruthy key = (key \<in> set platformKeys \<or> key \<in> set objectPrototypeProps)"

text \<open>
  The two prefix derivations of the source. \<^verbatim>\<open>transformPath\<close>, the landing-page check and
  \<^verbatim>\<open>getScopeFromUrl\<close> replace every hyphen (\<^verbatim>\<open>/-/g\<close>); \<^verbatim>\<open>SORTED_PLATFORMS\<close> and the
  platform detection in \<^verbatim>\<open>handleRequest\<close> replace the first hyphen only.
\<close>

definition prefixAll :: "string \<Rightarrow> string" where
  "prefixAll key = ''/'' @ replaceAll CHR ''-'' ''/'' key @ ''/''"

definition prefixFirst :: "string \<Rightarrow> string" where
  "prefixFirst key = ''/'' @ replaceFirst CHR ''-'' ''/'' key @ ''/''"

section \<open>transformPath (config/platforms.js)\<close>

text \<open>
  The source strips the prefix with a regular expression built from the prefix after
  escaping every metacharacter, anchored at the start: it matches exactly the paths
  that begin with the literal prefix, and the replacement is \<^verbatim>\<open>'/'\<close>.
\<close>

definition stripPrefix :: "string \<Rightarrow> string \<Rightarrow> string" where
  "stripPrefix pfx path =
     (if startsWith path pfx then ''/'' @ drop (length pfx) path else path)"

definition transformCrates :: "string \<Rightarrow> string" where
  "transformCrates t =
     (if startsWith t ''/'' then
        (if t = ''/'' \<or> startsWith t ''/?'' then replaceFirst CHR ''/'' ''/api/v1/crates'' t
         else ''/api/v1/crates'' @ t)
      else t)"

definition transformJenkins :: "string \<Rightarrow> string" where
  "transformJenkins t =
     (if t = ''/update-center.json'' then ''/current/update-center.json''
      else if t = ''/update-center.actual.json'' then ''/current/update-center.actual.json''
      else if startsWith t ''/experimental/'' \<or> startsWith t ''/download/''
              \<or> startsWith t ''/current/'' then t
      else ''/current'' @ t)"

definition transformPath :: "string \<Rightarrow> string \<Rightarrow> string" where
  "transformPath path platformKey =
     (if \<not> platformTruthy platformKey then path
      else
        let transformedPath = stripPrefix (prefixAll platformKey) path;
            transformedPath =
              (if platformKey = ''crates'' then transformCrates transformedPath
               else transformedPath)
        in if platformKey = ''homebrew-api'' \<and> startsWith transformedPath ''/'' then transformedPath
           else if platformKey = ''homebrew-bottles'' \<and> startsWith transformedPath ''/''
             then transformedPath
           else if platformKey = ''jenkins'' \<and> startsWith transformedPath ''/''
             then transformJenkins transformedPath
           else if platformKey = ''homebrew'' \<and> startsWith transformedPath ''/''
             then transformedPath
           else transformedPath)"

section \<open>Platform detection (SORTED_PLATFORMS and handleRequest)\<close>

text \<open>
  \<^verbatim>\<open>Object.keys(PLATFORMS).sort((a, b) => pathB.length - pathA.length)\<close>: the keys in
  insertion order, sorted by descending prefix length. \<^verbatim>\<open>Array.prototype.sort\<close> is
  stable, as is \<^const>\<open>sort_key\<close>.
\<close>

definition SORTED_PLATFORMS :: "string list" where
  "SORTED_PLATFORMS = sort_key (\<lambda>key. - int (length (prefixFirst key))) platformKeys"

text \<open>
  The \<^verbatim>\<open>platform\<close> expression of \<^verbatim>\<open>handleRequest\<close>: the first key of
  \<^verbatim>\<open>SORTED_PLATFORMS\<close> whose prefix begins the effective path, or else the second
  element of \<^verbatim>\<open>effectivePath.split('/')\<close>, which is \<^verbatim>\<open>undefined\<close> (here \<open>None\<close>) when the
  path has no slash.
\<close>

definition detectPlatform :: "string \<Rightarrow> string option" where
  "detectPlatform effectivePath =
     (case find (\<lambda>key. startsWith effectivePath (prefixFirst key)) SORTED_PLATFORMS of
        Some key \<Rightarrow> Some key
      | None \<Rightarrow>
          (let parts = str_split CHR ''/'' effectivePath
           in if 1 < length parts then Some (parts ! 1) else None))"

section \<open>Docker scope derivation (protocols/docker.js)\<close>

text \<open>\<^verbatim>\<open>xs.findIndex(p)\<close>; \<open>None\<close> stands for the result \<^verbatim>\<open>-1\<close>.\<close>

fun findIndex :: "('a \<Rightarrow> bool) \<Rightarrow> 'a list \<Rightarrow> nat option" where
  "findIndex P [] = None"
| "findIndex P (x # xs) =
     (if P x then Some 0 else map_option Suc (findIndex P xs))"

text \<open>
  For a container-registry request \<^verbatim>\<open>handleRequest\<close> computes the effective path as
  \<^verbatim>\<open>url.pathname.replace(/^\/v2/, '')\<close>.
\<close>

definition stripV2 :: "string \<Rightarrow> string" where
  "stripV2 pathname = (if startsWith pathname ''/v2'' then drop 3 pathname else pathname)"

definition suffixSegments :: "string list" where
  "suffixSegments = [''manifests'', ''blobs'', ''tags'', ''referrers'']"

text \<open>The repository name: the segments before the first suffix segment, or all of them.\<close>

definition repoNameOf :: "string list \<Rightarrow> string" where
  "repoNameOf repoParts =
     (case findIndex (\<lambda>p. p \<in> set suffixSegments) repoParts of
        Some suffixIndex \<Rightarrow> str_join CHR ''/'' (take suffixIndex repoParts)
      | None \<Rightarrow> str_join CHR ''/'' repoParts)"

text \<open>Docker Hub's official images: a name without a slash goes under \<^verbatim>\<open>library/\<close>.\<close>

definition normalizeRepoName :: "string \<Rightarrow> string \<Rightarrow> string" where
  "normalizeRepoName platform repoName =
     (if platform = ''cr-docker'' \<and> repoName \<noteq> [] \<and> \<not> str_includes repoName ''/''
      then ''library/'' @ repoName else repoName)"

definition getScopeFromUrl :: "string \<Rightarrow> string \<Rightarrow> string \<Rightarrow> string" where
  "getScopeFromUrl pathname effectivePath platform =
     (let pathParts = str_split CHR ''/'' pathname
      in if ''_catalog'' \<in> set pathParts then ''registry:catalog:*''
         else if 4 \<le> length pathParts \<and> pathParts ! 1 = ''v2'' then
           (let platformPrefix = prefixAll platform
            in if startsWith effectivePath platformPrefix then
                 (let repoPathFull = drop (length platformPrefix) effectivePath;
                      repoParts = str_split CHR ''/'' repoPathFull;
                      repoName = normalizeRepoName platform (repoNameOf repoParts)
                  in if repoName \<noteq> [] then ''repository:'' @ repoName @ '':pull'' else [])
               else [])
         else [])"

text \<open>
  The shape of a repository path as section 4.4 of the specification words it:
  \<^verbatim>\<open>/v2/<platformPrefix>/<repoPath>/(manifests|blobs|tags|referrers)/...\<close>, with a
  non-empty repository path before the first suffix segment and something after it. This
  is the specification's shape, stated for comparison with what the code accepts.
\<close>

definition spec_repository_shape :: "string \<Rightarrow> string \<Rightarrow> bool" where
  "spec_repository_shape pathname platform =
     (startsWith pathname (''/v2'' @ prefixAll platform) \<and>
      (let rest = str_split CHR ''/'' (drop (length (''/v2'' @ prefixAll platform)) pathname)
       in case findIndex (\<lambda>p. p \<in> set suffixSegments) rest of
            None \<Rightarrow> False
          | Some i \<Rightarrow> str_join CHR ''/'' (take i rest) \<noteq> [] \<and> i + 1 < length rest))"

section \<open>Numbers as text\<close>

text \<open>
  JavaScript numbers are doubles; the model uses unbounded integers, which agree with them
  on every integer of magnitude at most \<open>2 ^ 53\<close>.
\<close>

definition digitChar :: "nat \<Rightarrow> char" where
  "digitChar d = char_of (48 + d)"

function showNat :: "nat \<Rightarrow> string" where
  "showNat n = (if n < 10 then [digitChar n] else showNat (n div 10) @ [digitChar (n mod 10)])"
  by pat_completeness auto
termination
  by (relation "measure (\<lambda>n. n)") auto

declare showNat.simps [simp del]

text \<open>A template literal \<^verbatim>\<open>${n}\<close> or \<^verbatim>\<open>JSON.stringify(n)\<close> for an integer \<open>n\<close>.\<close>

definition showInt :: "int \<Rightarrow> string" where
  "showInt i = (if i < 0 then ''-'' @ showNat (nat (- i)) else showNat (nat i))"

definition isDigit :: "char \<Rightarrow> bool" where
  "isDigit c = (48 \<le> (of_char c :: nat) \<and> (of_char c :: nat) \<le> 57)"

definition digitValue :: "char \<Rightarrow> nat" where
  "digitValue c = of_char c - 48"

text \<open>
  The white space \<^verbatim>\<open>parseInt\<close> skips, among the characters of the model (the code points
  up to 255): TAB, LF, VT, FF, CR, space and the no-break space.
\<close>

definition isWhiteSpace :: "char \<Rightarrow> bool" where
  "isWhiteSpace c =
     ((9 \<le> (of_char c :: nat) \<and> (of_char c :: nat) \<le> 13) \<or> c = CHR '' '' \<or> c = CHR 0xA0)"

text \<open>
  \<^verbatim>\<open>parseInt(s, 10)\<close>: skip white space, read an optional sign, then the longest run of
  decimal digits; \<open>None\<close> is \<^verbatim>\<open>NaN\<close>. Whatever follows the digits is ignored. The value
  \<^verbatim>\<open>-0\<close> is \<open>0\<close> here; both are falsy.
\<close>

definition parseInt :: "string \<Rightarrow> int option" where
  "parseInt s =
     (let t = dropWhile isWhiteSpace s;
          neg = (t \<noteq> [] \<and> hd t = CHR ''-'');
          u = (if t \<noteq> [] \<and> (hd t = CHR ''-'' \<or> hd t = CHR ''+'') then tl t else t);
          z = takeWhile isDigit u
      in if z = [] then None
         else let v = int (foldl (\<lambda>acc c. acc * 10 + digitValue c) 0 z)
              in Some (if neg then - v else v))"

section \<open>Configuration (config/index.js)\<close>

record SecurityConfig =
  ALLOWED_METHODS :: "string list"
  ALLOWED_ORIGINS :: "string list"
  MAX_PATH_LENGTH :: int

text \<open>
  The \<^verbatim>\<open>PLATFORMS\<close> member is the constant table above and is left out of the record.
\<close>

record ApplicationConfig =
  TIMEOUT_SECONDS :: int
  MAX_RETRIES :: int
  RETRY_DELAY_MS :: int
  CACHE_DURATION :: int
  SECURITY :: SecurityConfig

text \<open>
  The environment maps a variable to its string value; \<^verbatim>\<open>String(env.X)\<close> of a missing
  variable is the text \<^verbatim>\<open>undefined\<close>.
\<close>

type_synonym env = "string \<rightharpoonup> string"

definition envString :: "env \<Rightarrow> string \<Rightarrow> string" where
  "envString e name = (case e name of None \<Rightarrow> ''undefined'' | Some v \<Rightarrow> v)"

text \<open>\<^verbatim>\<open>parseInt(String(env.X), 10) || d\<close>: \<^verbatim>\<open>NaN\<close> and zero are falsy.\<close>

definition intSetting :: "env \<Rightarrow> string \<Rightarrow> int \<Rightarrow> int" where
  "intSetting e name d =
     (case parseInt (envString e name) of
        None \<Rightarrow> d
      | Some v \<Rightarrow> if v = 0 then d else v)"

definition listSetting :: "env \<Rightarrow> string \<Rightarrow> string list \<Rightarrow> string list" where
  "listSetting e name d = (case e name of None \<Rightarrow> d | Some v \<Rightarrow> str_split CHR '','' v)"

definition createConfig :: "env \<Rightarrow> ApplicationConfig" where
  "createConfig e =
     \<lparr> TIMEOUT_SECONDS = intSetting e ''TIMEOUT_SECONDS'' 30,
       MAX_RETRIES = intSetting e ''MAX_RETRIES'' 3,
       RETRY_DELAY_MS = intSetting e ''RETRY_DELAY_MS'' 1000,
       CACHE_DURATION = intSetting e ''CACHE_DURATION'' 1800,
       SECURITY =
         \<lparr> ALLOWED_METHODS = listSetting e ''ALLOWED_METHODS'' [''GET'', ''HEAD''],
           ALLOWED_ORIGINS = listSetting e ''ALLOWED_ORIGINS'' [''*''],
           MAX_PATH_LENGTH = intSetting e ''MAX_PATH_LENGTH'' 2048 \<rparr> \<rparr>"

section \<open>Headers and responses\<close>

text \<open>
  A \<^verbatim>\<open>Headers\<close> object maps lower-cased names to values; every method lower-cases the
  name it is given.
\<close>

definition toLowerChar :: "char \<Rightarrow> char" where
  "toLowerChar c =
     (if 65 \<le> (of_char c :: nat) \<and> (of_char c :: nat) \<le> 90
      then char_of ((of_char c :: nat) + 32) else c)"

definition toLowerCase :: "string \<Rightarrow> string" where
  "toLowerCase s = map toLowerChar s"

type_synonym headers = "string \<rightharpoonup> string"

definition hget :: "string \<Rightarrow> headers \<Rightarrow> string option" where
  "hget name hs = hs (toLowerCase name)"

definition hset :: "string \<Rightarrow> string \<Rightarrow> headers \<Rightarrow> headers" where
  "hset name v hs = hs(toLowerCase name \<mapsto> v)"

definition hdelete :: "string \<Rightarrow> headers \<Rightarrow> headers" where
  "hdelete name hs = hs(toLowerCase name := None)"

text \<open>A header value as a condition: \<^verbatim>\<open>null\<close> and the empty string are falsy.\<close>

definition truthy :: "string option \<Rightarrow> bool" where
  "truthy v = (case v of None \<Rightarrow> False | Some s \<Rightarrow> s \<noteq> [])"

text \<open>The text of a header value that is known to be present.\<close>

definition headerText :: "string option \<Rightarrow> string" where
  "headerText v = (case v of None \<Rightarrow> [] | Some s \<Rightarrow> s)"

text \<open>A response body is \<^verbatim>\<open>null\<close> (\<open>None\<close>) or a text.\<close>

record response =
  status :: int
  headers :: headers
  body :: "string option"

definition ok :: "response \<Rightarrow> bool" where
  "ok r = (200 \<le> status r \<and> status r \<le> 299)"

text \<open>\<^verbatim>\<open>await response.text()\<close>: a null body reads as the empty text.\<close>

definition bodyText :: "response \<Rightarrow> string" where
  "bodyText r = (case body r of None \<Rightarrow> [] | Some t \<Rightarrow> t)"

text \<open>
  An error as the handler sees it: its \<^verbatim>\<open>name\<close> and its \<^verbatim>\<open>message\<close>. The abort of the
  per-attempt timer is the error named \<^verbatim>\<open>AbortError\<close>.
\<close>

datatype js_error = JsError (errName: string) (errMessage: string)

text \<open>
  The body handed to \<^verbatim>\<open>new Response\<close>: \<^verbatim>\<open>null\<close>, a string, or a stream (a body passed
  on from another response, or a \<^verbatim>\<open>ReadableStream\<close> built from a text).
\<close>

datatype body_init = NullBody | TextBody string | StreamBody string

text \<open>The wording of the two constructor errors is the runtime's.\<close>

definition statusRangeError :: js_error where
  "statusRangeError = JsError ''RangeError''
     ''Responses may only be constructed with status codes in the range 200 to 599, inclusive.''"

definition nullBodyStatusError :: js_error where
  "nullBodyStatusError = JsError ''TypeError''
     ''Response with null body status (101, 204, 205, or 304) cannot have a body.''"

text \<open>
  \<^verbatim>\<open>new Response(body, {status, headers})\<close>: a status outside 200..599 is a
  \<^verbatim>\<open>RangeError\<close>; a null-body status (204, 205, 304) with a body is a \<^verbatim>\<open>TypeError\<close>; a
  string body brings the content type \<^verbatim>\<open>text/plain;charset=UTF-8\<close> when the headers have
  none.
\<close>

definition newResponse :: "body_init \<Rightarrow> int \<Rightarrow> headers \<Rightarrow> js_error + response" where
  "newResponse b st hs =
     (if st < 200 \<or> 599 < st then Inl statusRangeError
      else if b \<noteq> NullBody \<and> (st = 204 \<or> st = 205 \<or> st = 304) then Inl nullBodyStatusError
      else case b of
             NullBody \<Rightarrow> Inr \<lparr> status = st, headers = hs, body = None \<rparr>
           | StreamBody t \<Rightarrow> Inr \<lparr> status = st, headers = hs, body = Some t \<rparr>
           | TextBody t \<Rightarrow>
               Inr \<lparr> status = st,
                     headers = (if hget ''Content-Type'' hs = None
                                then hset ''Content-Type'' ''text/plain;charset=UTF-8'' hs
                                else hs),
                     body = Some t \<rparr>)"

section \<open>Security headers and error responses (utils/security.js)\<close>

text \<open>A word in single quotes, as the policy below writes its keywords.\<close>

definition quoted :: "string \<Rightarrow> string" where
  "quoted w = [CHR 0x27] @ w @ [CHR 0x27]"

definition contentSecurityPolicy :: string where
  "contentSecurityPolicy =
     ''default-src '' @ quoted ''none'' @ ''; img-src '' @ quoted ''self''
     @ ''; script-src '' @ quoted ''none''"

definition addSecurityHeaders :: "headers \<Rightarrow> headers" where
  "addSecurityHeaders hs =
     hset ''Permissions-Policy'' ''interest-cohort=()''
      (hset ''Content-Security-Policy'' contentSecurityPolicy
        (hset ''Referrer-Policy'' ''strict-origin-when-cross-origin''
          (hset ''X-XSS-Protection'' ''1; mode=block''
            (hset ''X-Frame-Options'' ''DENY''
              (hset ''Strict-Transport-Security''
                 ''max-age=31536000; includeSubDomains; preload'' hs)))))"

text \<open>\<^verbatim>\<open>JSON.stringify\<close> of a string: quotes, backslashes and control characters escaped.\<close>

definition hexDigit :: "nat \<Rightarrow> char" where
  "hexDigit d = (if d < 10 then char_of (48 + d) else char_of (87 + d))"

definition jsonEscape :: "char \<Rightarrow> string" where
  "jsonEscape c =
     (if c = CHR 0x22 then [CHR 0x5C, CHR 0x22]
      else if c = CHR 0x5C then [CHR 0x5C, CHR 0x5C]
      else if c = CHR 0x08 then [CHR 0x5C, CHR ''b'']
      else if c = CHR 0x0C then [CHR 0x5C, CHR ''f'']
      else if c = CHR 0x0A then [CHR 0x5C, CHR ''n'']
      else if c = CHR 0x0D then [CHR 0x5C, CHR ''r'']
      else if c = CHR 0x09 then [CHR 0x5C, CHR ''t'']
      else if (of_char c :: nat) < 32
        then [CHR 0x5C, CHR ''u'', CHR ''0'', CHR ''0'',
              hexDigit ((of_char c :: nat) div 16), hexDigit ((of_char c :: nat) mod 16)]
      else [c])"

definition jsonString :: "string \<Rightarrow> string" where
  "jsonString s = [CHR 0x22] @ concat (map jsonEscape s) @ [CHR 0x22]"

text \<open>
  \<^verbatim>\<open>JSON.stringify({ error: message, status, timestamp })\<close>; the time stamp
  \<^verbatim>\<open>new Date().toISOString()\<close> is the parameter \<open>now\<close>.
\<close>

definition errorJson :: "string \<Rightarrow> string \<Rightarrow> int \<Rightarrow> string" where
  "errorJson now message st =
     ''{'' @ jsonString ''error'' @ '':'' @ jsonString message @ '','' @
     jsonString ''status'' @ '':'' @ showInt st @ '','' @
     jsonString ''timestamp'' @ '':'' @ jsonString now @ ''}''"

definition createErrorResponse ::
  "string \<Rightarrow> string \<Rightarrow> int \<Rightarrow> bool \<Rightarrow> js_error + response" where
  "createErrorResponse now message st includeDetails =
     (let errorBody = (if includeDetails then errorJson now message st else message)
      in newResponse (TextBody errorBody) st
           (addSecurityHeaders
              (hset ''Content-Type''
                 (if includeDetails then ''application/json'' else ''text/plain'') Map.empty)))"

section \<open>Docker authentication helpers (protocols/docker.js)\<close>

text \<open>
  The first match of \<^verbatim>\<open>/key="([^"]+)"/\<close> in a text, for a literal \<open>key\<close>: the leftmost
  place where \<^verbatim>\<open>key="\<close> is followed by a non-empty run of characters other than the
  double quote and then by a double quote. The capture is that run.
\<close>

definition quotedValueAt :: "string \<Rightarrow> string \<Rightarrow> string option" where
  "quotedValueAt key t =
     (if startsWith t (key @ [CHR ''='', CHR 0x22]) then
        (let rest = drop (length key + 2) t;
             run = takeWhile (\<lambda>c. c \<noteq> CHR 0x22) rest
         in if run \<noteq> [] \<and> length run < length rest then Some run else None)
      else None)"

fun quotedValue :: "string \<Rightarrow> string \<Rightarrow> string option" where
  "quotedValue key [] = None"
| "quotedValue key (c # cs) =
     (case quotedValueAt key (c # cs) of
        Some v \<Rightarrow> Some v
      | None \<Rightarrow> quotedValue key cs)"

definition parseAuthenticate :: "string \<Rightarrow> js_error + (string \<times> string)" where
  "parseAuthenticate authenticateStr =
     (case (quotedValue ''realm'' authenticateStr, quotedValue ''service'' authenticateStr) of
        (Some realm, Some service) \<Rightarrow> Inr (realm, service)
      | _ \<Rightarrow> Inl (JsError ''Error'' (''invalid Www-Authenticate Header: '' @ authenticateStr)))"

text \<open>
  \<^verbatim>\<open>responseUnauthorized(url)\<close>: the proxy's own challenge. The body is the
  \<^verbatim>\<open>JSON.stringify\<close> of the fixed error object.
\<close>

definition unauthorizedBody :: string where
  "unauthorizedBody =
     ''{'' @ jsonString ''errors'' @ '':[{'' @ jsonString ''code'' @ '':''
     @ jsonString ''UNAUTHORIZED'' @ '','' @ jsonString ''message'' @ '':''
     @ jsonString ''authentication required'' @ '','' @ jsonString ''detail'' @ '':null}]}''"

definition responseUnauthorized :: "string \<Rightarrow> js_error + response" where
  "responseUnauthorized hostname =
     newResponse (TextBody unauthorizedBody) 401
       (hset ''WWW-Authenticate''
          (''Bearer realm='' @ [CHR 0x22] @ ''https://'' @ hostname @ ''/v2/auth'' @ [CHR 0x22]
           @ '',service='' @ [CHR 0x22] @ ''Xget'' @ [CHR 0x22])
          Map.empty)"

section \<open>The upstream exchange of handleRequest (index.js)\<close>

text \<open>
  The model covers \<^verbatim>\<open>handleRequest\<close> from the point where the cache lookup has missed:
  the retry loop, the handling of its result, the cache store, the outer \<^verbatim>\<open>catch\<close> and the
  performance headers. What the earlier lines computed is the record \<open>request_ctx\<close>.
  Logging (\<^verbatim>\<open>console.warn\<close>) has no effect on the result and is left out; the abort timer
  shows as the environment answering a call with an \<^verbatim>\<open>AbortError\<close>.
\<close>

datatype redirect_mode = Follow | Manual

text \<open>The options of a \<^verbatim>\<open>fetch\<close>, without the abort signal.\<close>

record fetch_options =
  fo_method :: string
  fo_headers :: headers
  fo_redirect :: redirect_mode
  fo_body :: bool
  fo_cf :: bool

text \<open>
  A call to the outside: \<^verbatim>\<open>fetch(url, options)\<close>, or \<^verbatim>\<open>fetchToken\<close> with its realm, service,
  scope and authorization (the token URL is built by the runtime's \<^verbatim>\<open>URL\<close> class).
\<close>

datatype call =
    Fetch string fetch_options
  | FetchToken string string string string

record cache_key =
  ck_url :: string
  ck_method :: string
  ck_headers :: headers

text \<open>
  What the handler does to the outside, in order: calls, back-off sleeps (milliseconds),
  performance marks, cache writes (with whether \<^verbatim>\<open>ctx.waitUntil\<close> carries them) and cache
  probes.
\<close>

datatype event =
    Called call
  | Slept int
  | Marked string
  | CachePut cache_key response bool
  | CacheMatch cache_key

text \<open>
  The environment: how the network answers a call after a given history (a response or a
  thrown error), the clock, the \<^verbatim>\<open>token\<close> member of a token response's JSON body (\<open>None\<close>
  when the body does not parse or the member is falsy), what a cache probe finds, and the
  serialised performance metrics.
\<close>

record world =
  w_upstream :: "event list \<Rightarrow> call \<Rightarrow> js_error + response"
  w_clock :: "event list \<Rightarrow> string"
  w_tokenOf :: "string \<Rightarrow> string option"
  w_cacheMatch :: "event list \<Rightarrow> cache_key \<Rightarrow> js_error + response option"
  w_metrics :: "event list \<Rightarrow> string"

record request_ctx =
  rq_config :: ApplicationConfig
  rq_method :: string
  rq_headers :: headers
  rq_pathname :: string
  rq_hostname :: string
  rq_origin :: string
  rq_effectivePath :: string
  rq_platform :: string
  rq_targetUrl :: string
  rq_isGit :: bool
  rq_isGitLFS :: bool
  rq_isDocker :: bool
  rq_isAI :: bool
  rq_isHF :: bool
  rq_hasSensitiveHeaders :: bool
  rq_fetchOptions :: fetch_options
  rq_cache :: bool
  rq_waitUntil :: bool

definition isProtocol :: "request_ctx \<Rightarrow> bool" where
  "isProtocol c = (rq_isGit c \<or> rq_isGitLFS c \<or> rq_isDocker c \<or> rq_isAI c \<or> rq_isHF c)"

definition doCall :: "world \<Rightarrow> event list \<Rightarrow> call \<Rightarrow> (js_error + response) \<times> event list" where
  "doCall w tr cl = (w_upstream w tr cl, tr @ [Called cl])"

text \<open>
  The result of a stretch of the \<^verbatim>\<open>try\<close> block: a value, or a thrown error together with
  what the variable \<^verbatim>\<open>response\<close> holds at that moment.
\<close>

datatype 'a tried = Got 'a | Threw js_error "response option"

text \<open>\<^verbatim>\<open>finalFetchOptions\<close>: a Docker request never follows redirects by itself.\<close>

definition finalFetchOptions :: "request_ctx \<Rightarrow> fetch_options" where
  "finalFetchOptions c =
     (if rq_isDocker c then (rq_fetchOptions c)\<lparr> fo_redirect := Manual \<rparr>
      else rq_fetchOptions c)"

text \<open>
  The capture of \<^verbatim>\<open>/bytes\s+\d+-\d+\/(\d+)/\<close>: at the leftmost place where the word
  \<^verbatim>\<open>bytes\<close>, white space, digits, a hyphen, digits and a slash are followed by digits, the
  last run of digits. Every run is as long as it can be.
\<close>

definition isRegexSpace :: "char \<Rightarrow> bool" where
  "isRegexSpace c = (isWhiteSpace c \<or> c = CHR 0xA0)"

definition contentRangeAt :: "string \<Rightarrow> string option" where
  "contentRangeAt t =
     (if startsWith t ''bytes'' then
        (let t1 = drop 5 t;
             t2 = dropWhile isRegexSpace t1;
             t3 = dropWhile isDigit t2
         in if takeWhile isRegexSpace t1 = [] \<or> takeWhile isDigit t2 = [] then None
            else case t3 of
                   c # t4 \<Rightarrow>
                     if c = CHR ''-'' \<and> takeWhile isDigit t4 \<noteq> [] then
                       (case dropWhile isDigit t4 of
                          d # t5 \<Rightarrow>
                            if d = CHR ''/'' \<and> takeWhile isDigit t5 \<noteq> []
                            then Some (takeWhile isDigit t5) else None
                        | [] \<Rightarrow> None)
                     else None
                 | [] \<Rightarrow> None)
      else None)"

fun contentRangeTotal :: "string \<Rightarrow> string option" where
  "contentRangeTotal [] = None"
| "contentRangeTotal (c # cs) =
     (case contentRangeAt (c # cs) of
        Some v \<Rightarrow> Some v
      | None \<Rightarrow> contentRangeTotal cs)"

text \<open>
  A \<^verbatim>\<open>HEAD\<close> answer without \<^verbatim>\<open>Content-Length\<close>: a \<^verbatim>\<open>GET\<close> for the first byte recovers
  the length, and the answer is rebuilt without a body.
\<close>

definition headBackfill ::
  "world \<Rightarrow> request_ctx \<Rightarrow> response \<Rightarrow> event list \<Rightarrow> response tried \<times> event list" where
  "headBackfill w c r1 tr =
     (if ok r1 \<and> \<not> truthy (hget ''Content-Length'' (headers r1)) then
        (let rangeHeaders = hset ''Range'' ''bytes=0-0'' (fo_headers (rq_fetchOptions c));
             (out, tr1) = doCall w tr
               (Fetch (rq_targetUrl c)
                  ((finalFetchOptions c)\<lparr> fo_method := ''GET'', fo_headers := rangeHeaders \<rparr>))
         in case out of
              Inl e \<Rightarrow> (Threw e (Some r1), tr1)
            | Inr rangeResponse \<Rightarrow>
                (let contentLength =
                       (if status rangeResponse = 206 then
                          (case hget ''Content-Range'' (headers rangeResponse) of
                             Some contentRange \<Rightarrow>
                               if contentRange \<noteq> [] then contentRangeTotal contentRange
                               else None
                           | None \<Rightarrow> None)
                        else if ok rangeResponse
                          then hget ''Content-Length'' (headers rangeResponse)
                        else None)
                 in case contentLength of
                      Some len \<Rightarrow>
                        if len \<noteq> [] then
                          (case newResponse NullBody (status r1)
                                  (hset ''Content-Length'' len (headers r1)) of
                             Inl e \<Rightarrow> (Threw e (Some r1), tr1)
                           | Inr r \<Rightarrow> (Got r, tr1))
                        else (Got r1, tr1)
                    | None \<Rightarrow> (Got r1, tr1)))
      else (Got r1, tr))"

text \<open>The fetch of one attempt; \<open>resp\<close> is what \<^verbatim>\<open>response\<close> held before it.\<close>

definition firstFetch ::
  "world \<Rightarrow> request_ctx \<Rightarrow> response option \<Rightarrow> event list \<Rightarrow> response tried \<times> event list"
  where
  "firstFetch w c resp tr =
     (let (out, tr1) = doCall w tr (Fetch (rq_targetUrl c) (finalFetchOptions c))
      in case out of
           Inl e \<Rightarrow> (Threw e resp, tr1)
         | Inr r1 \<Rightarrow>
             if rq_method c = ''HEAD'' then headBackfill w c r1 tr1 else (Got r1, tr1))"

definition isRedirectStatus :: "int \<Rightarrow> bool" where
  "isRedirectStatus st = (st = 301 \<or> st = 302 \<or> st = 307)"

text \<open>
  The manual redirect of a Docker request, which the source writes twice (for the attempt
  and for the retry with a token) over the options \<open>opts\<close> of the request that was
  redirected: the \<^verbatim>\<open>Location\<close> is fetched with the same options but without the
  \<^verbatim>\<open>Authorization\<close> header, following further redirects.
\<close>

definition followRedirect ::
  "world \<Rightarrow> fetch_options \<Rightarrow> response \<Rightarrow> event list \<Rightarrow> response tried \<times> event list" where
  "followRedirect w opts r tr =
     (if isRedirectStatus (status r) then
        (case hget ''Location'' (headers r) of
           Some location \<Rightarrow>
             if location \<noteq> [] then
               (let redirectHeaders = hdelete ''Authorization'' (fo_headers opts);
                    (out, tr1) = doCall w tr
                      (Fetch location
                         (opts\<lparr> fo_headers := redirectHeaders, fo_redirect := Follow \<rparr>))
                in case out of
                     Inl e \<Rightarrow> (Threw e (Some r), tr1)
                   | Inr r' \<Rightarrow> (Got r', tr1))
             else (Got r, tr)
         | None \<Rightarrow> (Got r, tr))
      else (Got r, tr))"

text \<open>
  The inner \<^verbatim>\<open>try\<close> of the Docker 401 branch: parse the challenge, fetch an anonymous
  token, retry with it, follow a redirect of the retry. \<open>Some r\<close> is a successful retry;
  \<open>None\<close> is every other way out, all of which end in \<^verbatim>\<open>responseUnauthorized\<close>.
\<close>

definition dockerAuthRetry ::
  "world \<Rightarrow> request_ctx \<Rightarrow> response \<Rightarrow> event list \<Rightarrow> response option \<times> event list" where
  "dockerAuthRetry w c resp tr =
     (let scope = getScopeFromUrl (rq_pathname c) (rq_effectivePath c) (rq_platform c)
      in case hget ''WWW-Authenticate'' (headers resp) of
           None \<Rightarrow> (None, tr)
         | Some authenticateStr \<Rightarrow>
             if authenticateStr = [] then (None, tr)
             else case parseAuthenticate authenticateStr of
                    Inl e \<Rightarrow> (None, tr)
                  | Inr (realm, service) \<Rightarrow>
                      (let (tokenOut, tr1) = doCall w tr (FetchToken realm service scope [])
                       in case tokenOut of
                            Inl e \<Rightarrow> (None, tr1)
                          | Inr tokenResponse \<Rightarrow>
                              if \<not> ok tokenResponse then (None, tr1)
                              else case w_tokenOf w (bodyText tokenResponse) of
                                     None \<Rightarrow> (None, tr1)
                                   | Some token \<Rightarrow>
                                       (let retryHeaders =
                                              hset ''Authorization'' (''Bearer '' @ token)
                                                (fo_headers (rq_fetchOptions c));
                                            retryOptions = (finalFetchOptions c)
                                              \<lparr> fo_headers := retryHeaders,
                                                fo_redirect := Manual \<rparr>;
                                            (out, tr2) = doCall w tr1
                                              (Fetch (rq_targetUrl c) retryOptions)
                                        in case out of
                                             Inl e \<Rightarrow> (None, tr2)
                                           | Inr retryResponse \<Rightarrow>
                                               (case followRedirect w retryOptions
                                                       retryResponse tr2 of
                                                  (Threw e rv, tr3) \<Rightarrow> (None, tr3)
                                                | (Got r, tr3) \<Rightarrow>
                                                    if ok r then (Some r, tr3)
                                                    else (None, tr3)))))"

text \<open>
  How one pass through the loop body ends: \<^verbatim>\<open>break\<close> with the response, or on to the next
  test of the loop condition with what \<^verbatim>\<open>response\<close> holds. An error that escapes the loop
  (only the \<^verbatim>\<open>Response\<close> constructor can raise one there) comes with the history so far.
\<close>

datatype step = Break response | Continue "response option"

type_synonym 'a escaping = "(js_error \<times> event list) + ('a \<times> event list)"

text \<open>
  The \<^verbatim>\<open>catch\<close> block of the loop, entered after \<^verbatim>\<open>attempts\<close> attempts were counted, with
  the error and the current \<^verbatim>\<open>response\<close>.
\<close>

definition onError ::
  "world \<Rightarrow> request_ctx \<Rightarrow> int \<Rightarrow> js_error \<Rightarrow> response option \<Rightarrow> event list
   \<Rightarrow> step escaping" where
  "onError w c attempts e resp tr =
     (let attempts' = attempts + 1
      in if errName e = ''AbortError'' then
           (case createErrorResponse (w_clock w tr) ''Request timeout'' 408 False of
              Inl x \<Rightarrow> Inl (x, tr)
            | Inr r \<Rightarrow> Inr (Break r, tr))
         else if MAX_RETRIES (rq_config c) \<le> attempts' then
           (case createErrorResponse (w_clock w tr)
                   (''Failed after '' @ showInt (MAX_RETRIES (rq_config c)) @ '' attempts: ''
                    @ errMessage e) 500 True of
              Inl x \<Rightarrow> Inl (x, tr)
            | Inr r \<Rightarrow> Inr (Break r, tr))
         else Inr (Continue resp,
                   tr @ [Slept (RETRY_DELAY_MS (rq_config c) * attempts')]))"

text \<open>The tests on a response that the attempt obtained, in the order of the source.\<close>

definition decide ::
  "world \<Rightarrow> request_ctx \<Rightarrow> int \<Rightarrow> response \<Rightarrow> event list \<Rightarrow> step escaping" where
  "decide w c attempts r tr =
     (if ok r \<or> status r = 206 then Inr (Break r, tr @ [Marked ''success''])
      else if rq_isDocker c \<and> status r = 401 then
        (case dockerAuthRetry w c r (tr @ [Marked ''docker_auth_challenge'']) of
           (Some retryResponse, tr1) \<Rightarrow> Inr (Break retryResponse, tr1 @ [Marked ''success''])
         | (None, tr1) \<Rightarrow>
             (case responseUnauthorized (rq_hostname c) of
                Inl e \<Rightarrow> onError w c attempts e (Some r) tr1
              | Inr u \<Rightarrow> Inr (Break u, tr1)))
      else if 400 \<le> status r \<and> status r < 500 then
        Inr (Break r, tr @ [Marked ''client_error''])
      else
        (let attempts' = attempts + 1
         in if attempts' < MAX_RETRIES (rq_config c)
            then Inr (Continue (Some r),
                      tr @ [Slept (RETRY_DELAY_MS (rq_config c) * attempts')])
            else Inr (Continue (Some r), tr)))"

text \<open>The mark \<^verbatim>\<open>attempt_N\<close> that opens pass \<open>N\<close> of the loop.\<close>

definition attemptMark :: "int \<Rightarrow> event" where
  "attemptMark attempts = Marked (''attempt_'' @ showInt attempts)"

text \<open>One pass through the body of the \<^verbatim>\<open>while\<close> loop.\<close>

definition attempt ::
  "world \<Rightarrow> request_ctx \<Rightarrow> int \<Rightarrow> response option \<Rightarrow> event list \<Rightarrow> step escaping" where
  "attempt w c attempts resp tr =
     (case firstFetch w c resp (tr @ [attemptMark attempts]) of
        (Threw e rv, tr1) \<Rightarrow> onError w c attempts e rv tr1
      | (Got r1, tr1) \<Rightarrow>
          (case (if rq_isDocker c then followRedirect w (finalFetchOptions c) r1 tr1
                 else (Got r1, tr1)) of
             (Threw e rv, tr2) \<Rightarrow> onError w c attempts e rv tr2
           | (Got r2, tr2) \<Rightarrow> decide w c attempts r2 tr2))"

text \<open>
  \<^verbatim>\<open>while (attempts < config.MAX_RETRIES)\<close>. The result is what \<^verbatim>\<open>response\<close> holds after the
  loop.
\<close>

function retryLoop ::
  "world \<Rightarrow> request_ctx \<Rightarrow> int \<Rightarrow> response option \<Rightarrow> event list
   \<Rightarrow> (response option) escaping" where
  "retryLoop w c attempts resp tr =
     (if attempts < MAX_RETRIES (rq_config c) then
        (case attempt w c attempts resp tr of
           Inl x \<Rightarrow> Inl x
         | Inr (Break r, tr1) \<Rightarrow> Inr (Some r, tr1)
         | Inr (Continue resp1, tr1) \<Rightarrow> retryLoop w c (attempts + 1) resp1 tr1)
      else Inr (resp, tr))"
  by pat_completeness auto
termination
  by (relation "measure (\<lambda>(w, c, attempts, resp, tr). nat (MAX_RETRIES (rq_config c) - attempts))")
     auto

declare retryLoop.simps [simp del]


section \<open>After the loop: error mapping, rewriting, headers, cache store\<close>

text \<open>The branch for a response that is neither 2xx nor 206.\<close>

definition processError ::
  "world \<Rightarrow> request_ctx \<Rightarrow> response \<Rightarrow> event list \<Rightarrow> js_error + response" where
  "processError w c r tr =
     (if rq_isDocker c \<and> status r = 401 then
        (let isCustomError =
               (hget ''content-type'' (headers r) = Some ''application/json''
                \<and> str_includes (bodyText r) ''UNAUTHORIZED'')
         in if \<not> isCustomError then
              createErrorResponse (w_clock w tr)
                (''Authentication required for this container registry resource. ''
                 @ ''This may be a private repository. Original error: '' @ bodyText r)
                401 True
            else Inr r)
      else
        createErrorResponse (w_clock w tr)
          (''Upstream server error ('' @ showInt (status r) @ ''): '' @ bodyText r)
          (status r) True)"

text \<open>\<^verbatim>\<open>text.replace(/literal/g, rep)\<close> for a literal pattern and a replacement without \<^verbatim>\<open>$\<close>.\<close>

function replaceAllStr :: "string \<Rightarrow> string \<Rightarrow> string \<Rightarrow> string" where
  "replaceAllStr pat rep [] = []"
| "replaceAllStr pat rep (c # cs) =
     (if pat \<noteq> [] \<and> prefix pat (c # cs)
      then rep @ replaceAllStr pat rep (drop (length pat) (c # cs))
      else c # replaceAllStr pat rep cs)"
  by pat_completeness auto
termination
  by (relation "measure (\<lambda>(pat, rep, s). length s)") (auto simp: neq_Nil_conv)

text \<open>
  One match of \<^verbatim>\<open>/https:\/\/registry.npmjs.org\/([^/]+)/\<close> at the head of a text: the
  capture and what follows the match. The two unescaped dots match any character but a
  line terminator.
\<close>

definition isLineTerminator :: "char \<Rightarrow> bool" where
  "isLineTerminator c = (c = CHR 0x0A \<or> c = CHR 0x0D)"

definition npmMatchAt :: "string \<Rightarrow> (string \<times> string) option" where
  "npmMatchAt t =
     (if startsWith t ''https://registry'' then
        (case drop 16 t of
           x # t1 \<Rightarrow>
             if \<not> isLineTerminator x \<and> startsWith t1 ''npmjs'' then
               (case drop 5 t1 of
                  y # t2 \<Rightarrow>
                    if \<not> isLineTerminator y \<and> startsWith t2 ''org/'' then
                      (let t3 = drop 4 t2; pkg = takeWhile (\<lambda>ch. ch \<noteq> CHR ''/'') t3
                       in if pkg \<noteq> [] then Some (pkg, dropWhile (\<lambda>ch. ch \<noteq> CHR ''/'') t3)
                          else None)
                    else None
                | [] \<Rightarrow> None)
             else None
         | [] \<Rightarrow> None)
      else None)"

lemma npmMatchAt_shorter: "npmMatchAt t = Some (pkg, rest) \<Longrightarrow> length rest < length t"
proof -
  assume a: "npmMatchAt t = Some (pkg, rest)"
  have le: "length (dropWhile P xs) \<le> length xs" for P and xs :: string
    by (induction xs) auto
  from a obtain x t1 y t2 where d: "drop 16 t = x # t1" "drop 5 t1 = y # t2"
    and r: "rest = dropWhile (\<lambda>ch. ch \<noteq> CHR ''/'') (drop 4 t2)"
    unfolding npmMatchAt_def
    by (auto simp: Let_def split: if_splits list.splits)
  from d(1) have "length t - 16 = Suc (length t1)"
    by (metis length_drop length_Cons)
  moreover from d(2) have "length t1 - 5 = Suc (length t2)"
    by (metis length_drop length_Cons)
  moreover have "length rest \<le> length t2 - 4"
    unfolding r using le [of "\<lambda>ch. ch \<noteq> CHR ''/''" "drop 4 t2"] by simp
  ultimately show ?thesis by linarith
qed

function rewriteNpm :: "string \<Rightarrow> string \<Rightarrow> string" where
  "rewriteNpm origin [] = []"
| "rewriteNpm origin (c # cs) =
     (case npmMatchAt (c # cs) of
        Some (pkg, rest) \<Rightarrow> origin @ ''/npm/'' @ pkg @ rewriteNpm origin rest
      | None \<Rightarrow> c # rewriteNpm origin cs)"
  by pat_completeness auto
termination
  by (relation "measure (\<lambda>(origin, s). length s)") (auto dest: npmMatchAt_shorter)

definition contentTypeIncludes :: "response \<Rightarrow> string \<Rightarrow> bool" where
  "contentTypeIncludes r s =
     (case hget ''content-type'' (headers r) of
        Some ct \<Rightarrow> str_includes ct s
      | None \<Rightarrow> False)"

text \<open>\<^verbatim>\<open>responseBody\<close>: the upstream body, or the rewritten text as a new stream.\<close>

definition rewriteBody :: "request_ctx \<Rightarrow> response \<Rightarrow> body_init" where
  "rewriteBody c r =
     (let responseBody = (case body r of None \<Rightarrow> NullBody | Some t \<Rightarrow> StreamBody t);
          responseBody =
            (if rq_platform c = ''pypi'' \<and> contentTypeIncludes r ''text/html''
             then StreamBody (replaceAllStr ''https://files.pythonhosted.org''
                                (rq_origin c @ ''/pypi/files'') (bodyText r))
             else responseBody);
          responseBody =
            (if rq_platform c = ''npm'' \<and> contentTypeIncludes r ''application/json''
             then StreamBody (rewriteNpm (rq_origin c) (bodyText r))
             else responseBody)
      in responseBody)"

text \<open>The headers of the outgoing response in the success branch.\<close>

definition successHeaders :: "request_ctx \<Rightarrow> response \<Rightarrow> headers" where
  "successHeaders c r =
     (let hs = headers r
      in if \<not> isProtocol c then
           (let hs =
                  (if rq_hasSensitiveHeaders c then
                     (let hs1 = hset ''Cache-Control'' ''private, no-store'' hs
                      in hset ''Vary''
                           (if truthy (hget ''Vary'' hs1)
                            then headerText (hget ''Vary'' hs1) @ '', Authorization, Cookie''
                            else ''Authorization, Cookie'') hs1)
                   else hset ''Cache-Control''
                          (''public, max-age='' @ showInt (CACHE_DURATION (rq_config c))) hs);
                hs = hset ''X-Content-Type-Options'' ''nosniff'' hs;
                hs = hset ''Accept-Ranges'' ''bytes'' hs;
                hs = (if hget ''Content-Length'' hs = None \<and> status r = 200
                        \<and> truthy (hget ''Content-Length'' (headers r))
                      then hset ''Content-Length'' (headerText (hget ''Content-Length'' (headers r))) hs
                      else hs)
            in addSecurityHeaders hs)
         else hs)"

text \<open>
  The three cache keys of the source, each a \<^verbatim>\<open>Request\<close> for the target URL with method
  \<^verbatim>\<open>GET\<close>: with the headers of the incoming request, with those headers but \<^verbatim>\<open>Range\<close>,
  and with no headers at all.
\<close>

definition asRequestedKey :: "request_ctx \<Rightarrow> cache_key" where
  "asRequestedKey c =
     \<lparr> ck_url = rq_targetUrl c, ck_method = ''GET'', ck_headers = rq_headers c \<rparr>"

definition fullContentKey :: "request_ctx \<Rightarrow> cache_key" where
  "fullContentKey c =
     \<lparr> ck_url = rq_targetUrl c, ck_method = ''GET'',
       ck_headers = (\<lambda>k. if toLowerCase k \<noteq> ''range'' then rq_headers c k else None) \<rparr>"

definition bareKey :: "request_ctx \<Rightarrow> cache_key" where
  "bareKey c = \<lparr> ck_url = rq_targetUrl c, ck_method = ''GET'', ck_headers = Map.empty \<rparr>"

text \<open>
  The cache store of the success branch. The write is an event; its failure is the
  runtime's to log. After a ranged request the as-requested key is probed again, and a hit
  replaces the response.
\<close>

definition cacheStore ::
  "world \<Rightarrow> request_ctx \<Rightarrow> response \<Rightarrow> event list \<Rightarrow> response \<times> event list" where
  "cacheStore w c r tr =
     (if rq_cache c \<and> \<not> isProtocol c \<and> \<not> rq_hasSensitiveHeaders c
         \<and> rq_method c = ''GET'' \<and> ok r \<and> status r = 200 then
        (let rangeHeader = hget ''Range'' (rq_headers c);
             cacheKey = (if truthy rangeHeader then fullContentKey c else bareKey c);
             tr1 = tr @ [CachePut cacheKey r (rq_waitUntil c)]
         in if truthy rangeHeader \<and> status r = 200 then
              (case w_cacheMatch w tr1 (asRequestedKey c) of
                 Inl e \<Rightarrow> (r, tr1 @ [CacheMatch (asRequestedKey c)])
               | Inr None \<Rightarrow> (r, tr1 @ [CacheMatch (asRequestedKey c)])
               | Inr (Some rangedResponse) \<Rightarrow>
                   (rangedResponse,
                    tr1 @ [CacheMatch (asRequestedKey c),
                           Marked ''range_cache_hit_after_full_cache'']))
            else (r, tr1))
      else (r, tr))"

text \<open>Everything between the loop and the outer \<^verbatim>\<open>catch\<close>.\<close>

definition processResponse ::
  "world \<Rightarrow> request_ctx \<Rightarrow> response option \<Rightarrow> event list \<Rightarrow> response escaping" where
  "processResponse w c resp tr =
     (case resp of
        None \<Rightarrow>
          (case createErrorResponse (w_clock w tr)
                  ''No response received after all retry attempts'' 500 True of
             Inl e \<Rightarrow> Inl (e, tr)
           | Inr r \<Rightarrow> Inr (r, tr))
      | Some r \<Rightarrow>
          if \<not> ok r \<and> status r \<noteq> 206 then
            (case processError w c r tr of
               Inl e \<Rightarrow> Inl (e, tr)
             | Inr r1 \<Rightarrow> Inr (r1, tr))
          else
            (case newResponse (rewriteBody c r) (status r) (successHeaders c r) of
               Inl e \<Rightarrow> Inl (e, tr)
             | Inr r1 \<Rightarrow> Inr (cacheStore w c r1 tr)))"

text \<open>\<^verbatim>\<open>addPerformanceHeaders\<close> (utils/performance.js), given the serialised metrics.\<close>

definition addPerformanceHeaders :: "string \<Rightarrow> response \<Rightarrow> js_error + response" where
  "addPerformanceHeaders metricsJson r =
     newResponse (case body r of None \<Rightarrow> NullBody | Some t \<Rightarrow> StreamBody t) (status r)
       (addSecurityHeaders (hset ''X-Performance-Metrics'' metricsJson (headers r)))"

text \<open>
  What follows the loop: the handling of its result inside the outer \<^verbatim>\<open>try\<close>, the outer
  \<^verbatim>\<open>catch\<close>, the \<^verbatim>\<open>complete\<close> mark and the performance headers of a non-protocol
  response. \<open>Inl\<close> is a rejected promise.
\<close>

definition afterLoop ::
  "world \<Rightarrow> request_ctx \<Rightarrow> (response option) escaping
   \<Rightarrow> (js_error + response) \<times> event list" where
  "afterLoop w c looped =
     (let inner =
            (case looped of
               Inl x \<Rightarrow> Inl x
             | Inr (resp, tr) \<Rightarrow> processResponse w c resp tr);
          (response, tr) =
            (case inner of
               Inr (r, tr) \<Rightarrow> (Inr r, tr)
             | Inl (e, tr) \<Rightarrow>
                 (createErrorResponse (w_clock w tr)
                    (''Internal Server Error: '' @ errMessage e) 500 True, tr));
          tr = tr @ [Marked ''complete'']
      in case response of
           Inl e \<Rightarrow> (Inl e, tr)
         | Inr r \<Rightarrow>
             (if isProtocol c then Inr r else addPerformanceHeaders (w_metrics w tr) r, tr))"

text \<open>
  The handler from the first attempt to its return value, on a history \<open>tr0\<close> of what
  came before.
\<close>

definition handleUpstream ::
  "world \<Rightarrow> request_ctx \<Rightarrow> event list \<Rightarrow> (js_error + response) \<times> event list" where
  "handleUpstream w c tr0 = afterLoop w c (retryLoop w c 0 None tr0)"

section \<open>Observations on a history\<close>








section \<open>Example environments and requests\<close>

text \<open>
  Concrete inputs on which the theorems below are instantiated. The clock, the cache and
  the metrics are fixed; the network is the parameter.
\<close>

definition plainResponse :: "int \<Rightarrow> string \<Rightarrow> response" where
  "plainResponse st b = \<lparr> status = st, headers = Map.empty, body = Some b \<rparr>"

definition exampleWorld :: "(event list \<Rightarrow> call \<Rightarrow> js_error + response) \<Rightarrow> world" where
  "exampleWorld up =
     \<lparr> w_upstream = up,
       w_clock = (\<lambda>tr. ''2025-01-01T00:00:00.000Z''),
       w_tokenOf = (\<lambda>b. if b = [] then None else Some b),
       w_cacheMatch = (\<lambda>tr k. Inr None),
       w_metrics = (\<lambda>tr. ''{}'') \<rparr>"




definition slowUpstream :: "event list \<Rightarrow> call \<Rightarrow> js_error + response" where
  "slowUpstream tr cl = Inl (JsError ''AbortError'' ''The operation was aborted'')"

text \<open>A plain \<^verbatim>\<open>GET /gh/a/b\<close> with one request header, under the default configuration.\<close>

definition exampleRequest :: request_ctx where
  "exampleRequest =
     \<lparr> rq_config = createConfig Map.empty,
       rq_method = ''GET'',
       rq_headers = [''accept'' \<mapsto> ''*/*''],
       rq_pathname = ''/gh/a/b'',
       rq_hostname = ''xget.example'',
       rq_origin = ''https://xget.example'',
       rq_effectivePath = ''/gh/a/b'',
       rq_platform = ''gh'',
       rq_targetUrl = ''https://github.com/a/b'',
       rq_isGit = False, rq_isGitLFS = False, rq_isDocker = False,
       rq_isAI = False, rq_isHF = False,
       rq_hasSensitiveHeaders = False,
       rq_fetchOptions =
         \<lparr> fo_method = ''GET'',
           fo_headers = [''accept-encoding'' \<mapsto> ''gzip, deflate, br'',
                         ''connection'' \<mapsto> ''keep-alive'',
                         ''user-agent'' \<mapsto> ''Wget/1.21.3'',
                         ''origin'' \<mapsto> ''*''],
           fo_redirect = Follow, fo_body = False, fo_cf = True \<rparr>,
       rq_cache = True,
       rq_waitUntil = True \<rparr>"



text \<open>
  A registry that challenges an anonymous request, hands out a token, and answers the
  request that carries a token with a redirect to a blob store.
\<close>

definition registryChallenge :: string where
  "registryChallenge =
     ''Bearer realm='' @ [CHR 0x22] @ ''https://auth.docker.io/token'' @ [CHR 0x22]
     @ '',service='' @ [CHR 0x22] @ ''registry.docker.io'' @ [CHR 0x22]"

definition registryUpstream :: "event list \<Rightarrow> call \<Rightarrow> js_error + response" where
  "registryUpstream tr cl =
     (case cl of
        FetchToken realm service scope authorization \<Rightarrow> Inr (plainResponse 200 ''t0k3n'')
      | Fetch url opts \<Rightarrow>
          if url = ''https://blobs.example/sha256:0a1b'' then Inr (plainResponse 200 ''layer'')
          else if hget ''Authorization'' (fo_headers opts) = None then
            Inr \<lparr> status = 401,
                  headers = [''www-authenticate'' \<mapsto> registryChallenge],
                  body = Some ''{}'' \<rparr>
          else
            Inr \<lparr> status = 307,
                  headers = [''location'' \<mapsto> ''https://blobs.example/sha256:0a1b''],
                  body = None \<rparr>)"

text \<open>
  \<^verbatim>\<open>GET /v2/cr/docker/nginx/blobs/sha256:0a1b\<close>, a Docker request: its headers are
  forwarded, and \<^verbatim>\<open>configureGitHeaders\<close> adds the \<^verbatim>\<open>User-Agent\<close> it lacks.
\<close>

definition dockerRequest :: request_ctx where
  "dockerRequest =
     \<lparr> rq_config = createConfig Map.empty,
       rq_method = ''GET'',
       rq_headers = [''accept'' \<mapsto> ''*/*''],
       rq_pathname = ''/v2/cr/docker/nginx/blobs/sha256:0a1b'',
       rq_hostname = ''xget.example'',
       rq_origin = ''https://xget.example'',
       rq_effectivePath = ''/cr/docker/nginx/blobs/sha256:0a1b'',
       rq_platform = ''cr-docker'',
       rq_targetUrl = ''https://registry-1.docker.io/v2/nginx/blobs/sha256:0a1b'',
       rq_isGit = False, rq_isGitLFS = False, rq_isDocker = True,
       rq_isAI = False, rq_isHF = False,
       rq_hasSensitiveHeaders = False,
       rq_fetchOptions =
         \<lparr> fo_method = ''GET'',
           fo_headers = [''accept'' \<mapsto> ''*/*'', ''user-agent'' \<mapsto> ''git/2.34.1''],
           fo_redirect = Follow, fo_body = False, fo_cf = False \<rparr>,
       rq_cache = True,
       rq_waitUntil = True \<rparr>"

section \<open>Verified properties\<close>

subsection \<open>Path transformation\<close>

lemmas tp_defs = transformPath_def platformTruthy_def platformKeys_def PLATFORMS_def
  prefixAll_def replaceAll_def stripPrefix_def startsWith_def transformCrates_def
  transformJenkins_def objectPrototypeProps_def

lemma tp_unknown_key:
  assumes "key \<notin> set platformKeys"
  shows "transformPath ''/unknown/x'' key = ''/unknown/x''"
proof (cases "key \<in> set objectPrototypeProps")
  case False
  with assms show ?thesis by (simp add: transformPath_def platformTruthy_def)
next
  case True
  then have "\<not> startsWith ''/unknown/x'' (prefixAll key)"
    by (auto simp: objectPrototypeProps_def prefixAll_def replaceAll_def startsWith_def)
  moreover from True have "key \<noteq> ''crates''" "key \<noteq> ''jenkins''"
    by (auto simp: objectPrototypeProps_def)
  ultimately show ?thesis
    by (simp add: transformPath_def stripPrefix_def Let_def)
qed

text \<open>
  Claim C2. \<^verbatim>\<open>transformPath\<close> meets the four fixed test vectors: the crates download
  path and the crates search path get the \<^verbatim>\<open>/api/v1/crates\<close> prefix, the Jenkins update
  centre moves under \<^verbatim>\<open>/current\<close>, and for every key that is not in the platform table the
  path \<^verbatim>\<open>/unknown/x\<close> comes back unchanged.
\<close>

theorem transformPath_vectors:
  "transformPath ''/crates/serde/1.0.0/download'' ''crates'' = ''/api/v1/crates/serde/1.0.0/download''
   \<and> transformPath ''/crates/?q=tokio'' ''crates'' = ''/api/v1/crates?q=tokio''
   \<and> transformPath ''/jenkins/update-center.json'' ''jenkins'' = ''/current/update-center.json''
   \<and> (\<forall>key. key \<notin> set platformKeys \<longrightarrow> transformPath ''/unknown/x'' key = ''/unknown/x'')"
proof (intro conjI allI impI)
  show "transformPath ''/crates/serde/1.0.0/download'' ''crates'' = ''/api/v1/crates/serde/1.0.0/download''"
    by (simp add: tp_defs)
  show "transformPath ''/crates/?q=tokio'' ''crates'' = ''/api/v1/crates?q=tokio''"
    by (simp add: tp_defs)
  show "transformPath ''/jenkins/update-center.json'' ''jenkins'' = ''/current/update-center.json''"
    by (simp add: tp_defs)
next
  fix key assume "key \<notin> set platformKeys"
  then show "transformPath ''/unknown/x'' key = ''/unknown/x''" by (rule tp_unknown_key)
qed

lemma missing_key_unregistered: "''missing-key'' \<notin> set platformKeys"
  by (simp add: platformKeys_def PLATFORMS_def)

theorem transformPath_vectors_witness:
  "''missing-key'' \<notin> set platformKeys
   \<and> transformPath ''/unknown/x'' ''missing-key'' = ''/unknown/x''"
  using transformPath_vectors missing_key_unregistered by blast

lemma append_neq_self: "xs \<noteq> [] \<Longrightarrow> xs @ p \<noteq> p"
  by simp

lemma crates_jenkins_prefix:
  "prefixAll ''crates'' = ''/crates/''" "prefixAll ''jenkins'' = ''/jenkins/''"
  "platformTruthy ''crates''" "platformTruthy ''jenkins''"
  by (simp_all add: prefixAll_def replaceAll_def platformTruthy_def platformKeys_def
      PLATFORMS_def)

lemma transformPath_unprefixed:
  assumes "\<not> startsWith p (prefixAll k)"
  shows "transformPath p k =
     (if k = ''crates'' then transformCrates p
      else if k = ''jenkins'' \<and> startsWith p ''/'' then transformJenkins p
      else p)"
proof (cases "platformTruthy k")
  case False
  then have "k \<noteq> ''crates''" "k \<noteq> ''jenkins''"
    using crates_jenkins_prefix by auto
  with False show ?thesis by (simp add: transformPath_def)
next
  case True
  have strip: "stripPrefix (prefixAll k) p = p"
    using assms by (simp add: stripPrefix_def)
  show ?thesis
  proof (cases "k = ''crates''")
    case c: True
    then show ?thesis using True strip by (simp add: transformPath_def Let_def)
  next
    case False
    with True strip show ?thesis by (simp add: transformPath_def Let_def)
  qed
qed

lemma transformCrates_slash:
  assumes "startsWith p ''/''"
  shows "transformCrates p =
     (if p = ''/'' \<or> startsWith p ''/?'' then ''/api/v1/crates'' @ tl p
      else ''/api/v1/crates'' @ p)"
    and "startsWith (transformCrates p) ''/''"
    and "\<not> startsWith (transformCrates p) ''/crates/''"
    and "transformCrates p \<noteq> p"
proof -
  from assms obtain r where p: "p = CHR ''/'' # r"
    by (cases p) (auto simp: startsWith_def)
  show "transformCrates p =
     (if p = ''/'' \<or> startsWith p ''/?'' then ''/api/v1/crates'' @ tl p
      else ''/api/v1/crates'' @ p)"
    using p by (simp add: transformCrates_def startsWith_def)
  show "startsWith (transformCrates p) ''/''"
    using p by (simp add: transformCrates_def startsWith_def)
  show "\<not> startsWith (transformCrates p) ''/crates/''"
    using p by (simp add: transformCrates_def startsWith_def)
  have "''/api/v1/crates'' @ r \<noteq> CHR ''/'' # r" by simp
  moreover have "''/api/v1/crates'' @ p \<noteq> p" by (rule append_neq_self) simp
  ultimately show "transformCrates p \<noteq> p"
    using p by (simp add: transformCrates_def startsWith_def)
qed

lemma transformCrates_twice:
  assumes "startsWith p ''/''"
  shows "transformCrates (transformCrates p) = ''/api/v1/crates'' @ transformCrates p"
proof -
  from assms obtain r where p: "p = CHR ''/'' # r"
    by (cases p) (auto simp: startsWith_def)
  show ?thesis
    using p by (simp add: transformCrates_def startsWith_def)
qed

lemma transformJenkins_slash:
  assumes "startsWith p ''/''"
  shows "transformJenkins p =
     (if startsWith p ''/experimental/'' \<or> startsWith p ''/download/''
         \<or> startsWith p ''/current/'' then p
      else ''/current'' @ p)"
    and "startsWith (transformJenkins p) ''/''"
    and "\<not> startsWith (transformJenkins p) ''/jenkins/''
         \<Longrightarrow> transformJenkins (transformJenkins p) = transformJenkins p"
proof -
  from assms obtain r where p: "p = CHR ''/'' # r"
    by (cases p) (auto simp: startsWith_def)
  show a: "transformJenkins p =
     (if startsWith p ''/experimental/'' \<or> startsWith p ''/download/''
         \<or> startsWith p ''/current/'' then p
      else ''/current'' @ p)"
    by (auto simp: transformJenkins_def startsWith_def)
  show "startsWith (transformJenkins p) ''/''"
    unfolding a using assms by (auto simp: startsWith_def)
  have cur: "startsWith (''/current'' @ p) ''/current/''"
    using p by (simp add: startsWith_def)
  have ne: "''/current'' @ p \<noteq> ''/update-center.json''"
    "''/current'' @ p \<noteq> ''/update-center.actual.json''"
    by simp_all
  show "transformJenkins (transformJenkins p) = transformJenkins p"
  proof (cases "startsWith p ''/experimental/'' \<or> startsWith p ''/download/''
         \<or> startsWith p ''/current/''")
    case True
    with a show ?thesis by simp
  next
    case False
    with a have "transformJenkins p = ''/current'' @ p" by simp
    moreover have "transformJenkins (''/current'' @ p) = ''/current'' @ p"
      using cur ne unfolding transformJenkins_def by simp
    ultimately show ?thesis by simp
  qed
qed

text \<open>
  Claim C7, as amended. Let the path \<open>p\<close> not begin with the prefix of key \<open>k\<close>. Then
  \<^verbatim>\<open>transformPath\<close> returns \<open>p\<close> unchanged exactly when no platform rule fires, that is
  unless \<open>k\<close> is \<^verbatim>\<open>crates\<close> and \<open>p\<close> begins with a slash, or \<open>k\<close> is \<^verbatim>\<open>jenkins\<close> and \<open>p\<close>
  begins with a slash but not with \<^verbatim>\<open>/experimental/\<close>, \<^verbatim>\<open>/download/\<close> or \<^verbatim>\<open>/current/\<close>.
  In the \<^verbatim>\<open>crates\<close> case the result is \<^verbatim>\<open>/api/v1/crates\<close> followed by \<open>p\<close>, or, when \<open>p\<close> is
  \<^verbatim>\<open>/\<close> or begins with \<^verbatim>\<open>/?\<close>, followed by \<open>p\<close> without its leading slash; that result
  again lacks the \<^verbatim>\<open>crates\<close> prefix and a second application puts \<^verbatim>\<open>/api/v1/crates\<close> in
  front of it again, so the prefix is prepended twice. In the \<^verbatim>\<open>jenkins\<close> case the result is \<^verbatim>\<open>/current\<close> followed
  by \<open>p\<close>, and a second application returns it unchanged: the prefix is prepended once.
\<close>

theorem transformPath_noop_iff:
  assumes "\<not> startsWith p (prefixAll k)"
  shows "(transformPath p k = p \<longleftrightarrow>
       \<not> (startsWith p ''/'' \<and>
          (k = ''crates'' \<or>
           (k = ''jenkins'' \<and> \<not> startsWith p ''/experimental/''
              \<and> \<not> startsWith p ''/download/'' \<and> \<not> startsWith p ''/current/''))))
    \<and> (k = ''crates'' \<and> startsWith p ''/'' \<longrightarrow>
         transformPath p k =
           (if p = ''/'' \<or> startsWith p ''/?'' then ''/api/v1/crates'' @ tl p
            else ''/api/v1/crates'' @ p)
         \<and> \<not> startsWith (transformPath p k) (prefixAll k)
         \<and> transformPath (transformPath p k) k = ''/api/v1/crates'' @ transformPath p k
         \<and> transformPath (transformPath p k) k \<noteq> transformPath p k)
    \<and> (k = ''jenkins'' \<and> startsWith p ''/'' \<and> \<not> startsWith p ''/experimental/''
          \<and> \<not> startsWith p ''/download/'' \<and> \<not> startsWith p ''/current/'' \<longrightarrow>
         transformPath p k = ''/current'' @ p
         \<and> \<not> startsWith (transformPath p k) (prefixAll k)
         \<and> transformPath (transformPath p k) k = transformPath p k)"
proof (intro conjI impI)
  note tp = transformPath_unprefixed [OF assms]
  show "transformPath p k = p \<longleftrightarrow>
       \<not> (startsWith p ''/'' \<and>
          (k = ''crates'' \<or>
           (k = ''jenkins'' \<and> \<not> startsWith p ''/experimental/''
              \<and> \<not> startsWith p ''/download/'' \<and> \<not> startsWith p ''/current/'')))"
  proof (cases "startsWith p ''/''")
    case False
    then show ?thesis by (simp add: tp transformCrates_def)
  next
    case True
    have "''/current'' @ p \<noteq> p" by (rule append_neq_self) simp
    with True transformCrates_slash(4) [OF True] show ?thesis
      by (auto simp: tp transformJenkins_slash(1) [OF True])
  qed
next
  assume h: "k = ''crates'' \<and> startsWith p ''/''"
  then have k: "k = ''crates''" and sl: "startsWith p ''/''" by simp_all
  have r: "transformPath p k = transformCrates p" using assms k
    by (simp add: transformPath_unprefixed)
  show "transformPath p k =
           (if p = ''/'' \<or> startsWith p ''/?'' then ''/api/v1/crates'' @ tl p
            else ''/api/v1/crates'' @ p)"
    using r transformCrates_slash(1) [OF sl] by simp
  show np: "\<not> startsWith (transformPath p k) (prefixAll k)"
    using r k transformCrates_slash(3) [OF sl] by (simp add: crates_jenkins_prefix)
  have "transformPath (transformPath p k) k = transformCrates (transformCrates p)"
    using transformPath_unprefixed [OF np] k r by simp
  with transformCrates_twice [OF sl] r
  show tw: "transformPath (transformPath p k) k = ''/api/v1/crates'' @ transformPath p k"
    by simp
  show "transformPath (transformPath p k) k \<noteq> transformPath p k"
    unfolding tw by (rule append_neq_self) simp
next
  assume h: "k = ''jenkins'' \<and> startsWith p ''/'' \<and> \<not> startsWith p ''/experimental/''
          \<and> \<not> startsWith p ''/download/'' \<and> \<not> startsWith p ''/current/''"
  then have k: "k = ''jenkins''" and sl: "startsWith p ''/''" by simp_all
  have r: "transformPath p k = transformJenkins p" using assms k sl
    by (simp add: transformPath_unprefixed)
  have v: "transformJenkins p = ''/current'' @ p"
    using h transformJenkins_slash(1) [OF sl] by simp
  show "transformPath p k = ''/current'' @ p" using r v by simp
  have npj: "\<not> startsWith (transformJenkins p) ''/jenkins/''"
    by (simp add: v startsWith_def)
  then show np: "\<not> startsWith (transformPath p k) (prefixAll k)"
    using r k by (simp add: crates_jenkins_prefix)
  have "transformPath (transformPath p k) k = transformJenkins (transformJenkins p)"
    using transformPath_unprefixed [OF np] k r transformJenkins_slash(2) [OF sl] by simp
  with transformJenkins_slash(3) [OF sl npj] r
  show "transformPath (transformPath p k) k = transformPath p k" by simp
qed

text \<open>Claim C7 on a Jenkins path, on the root path of crates and on a crate path.\<close>

theorem transformPath_noop_iff_witness:
  "\<not> startsWith ''/current/plugins/git.hpi'' (prefixAll ''jenkins'')
   \<and> transformPath ''/current/plugins/git.hpi'' ''jenkins'' = ''/current/plugins/git.hpi''
   \<and> \<not> startsWith ''/plugins/git.hpi'' (prefixAll ''jenkins'')
   \<and> transformPath ''/plugins/git.hpi'' ''jenkins'' = ''/current/plugins/git.hpi''
   \<and> \<not> startsWith ''/'' (prefixAll ''crates'')
   \<and> transformPath ''/'' ''crates'' = ''/api/v1/crates''
   \<and> \<not> startsWith ''/serde'' (prefixAll ''crates'')
   \<and> transformPath ''/serde'' ''crates'' = ''/api/v1/crates/serde''"
  using transformPath_noop_iff [of "''/current/plugins/git.hpi''" "''jenkins''"]
    transformPath_noop_iff [of "''/plugins/git.hpi''" "''jenkins''"]
    transformPath_noop_iff [of "''/''" "''crates''"]
    transformPath_noop_iff [of "''/serde''" "''crates''"]
  by (simp add: crates_jenkins_prefix startsWith_def)

text \<open>
  A path that already carries the \<^verbatim>\<open>crates\<close> API prefix gets it a second time.
\<close>

theorem transformPath_double_prefix_counterexample:
  "\<not> startsWith ''/api/v1/crates/serde'' (prefixAll ''crates'')
   \<and> transformPath ''/crates/serde'' ''crates'' = ''/api/v1/crates/serde''
   \<and> transformPath ''/api/v1/crates/serde'' ''crates'' \<noteq> ''/api/v1/crates/serde''"
  by (simp add: tp_defs)

subsection \<open>Platform detection\<close>

lemma platformKeys_eq:
  "platformKeys =
    [''gh'', ''gist'', ''gl'', ''gitea'', ''codeberg'', ''sf'', ''aosp'', ''hf'', ''civitai'',
     ''npm'', ''pypi'', ''pypi-files'', ''conda'', ''conda-community'', ''maven'', ''apache'',
     ''gradle'', ''homebrew'', ''homebrew-api'', ''homebrew-bottles'', ''rubygems'', ''cran'',
     ''cpan'', ''ctan'', ''golang'', ''nuget'', ''crates'', ''packagist'', ''debian'', ''ubuntu'',
     ''fedora'', ''rocky'', ''opensuse'', ''arch'', ''arxiv'', ''fdroid'', ''jenkins'',
     ''ip-openai'', ''ip-anthropic'', ''ip-gemini'', ''ip-vertexai'', ''ip-cohere'',
     ''ip-mistralai'', ''ip-xai'', ''ip-githubmodels'', ''ip-nvidiaapi'', ''ip-perplexity'',
     ''ip-braintrust'', ''ip-groq'', ''ip-cerebras'', ''ip-sambanova'', ''ip-siray'',
     ''ip-huggingface'', ''ip-together'', ''ip-replicate'', ''ip-fireworks'', ''ip-nebius'',
     ''ip-jina'', ''ip-voyageai'', ''ip-falai'', ''ip-novita'', ''ip-burncloud'',
     ''ip-openrouter'', ''ip-poe'', ''ip-featherlessai'', ''ip-hyperbolic'', ''cr-docker'',
     ''cr-quay'', ''cr-gcr'', ''cr-mcr'', ''cr-ecr'', ''cr-ghcr'', ''cr-gitlab'', ''cr-redhat'',
     ''cr-oracle'', ''cr-cloudsmith'', ''cr-digitalocean'', ''cr-vmware'', ''cr-k8s'',
     ''cr-heroku'', ''cr-suse'', ''cr-opensuse'', ''cr-gitpod'']"
  by (simp add: platformKeys_def PLATFORMS_def)

lemma SORTED_PLATFORMS_eq:
  "SORTED_PLATFORMS =
    [''homebrew-bottles'', ''ip-featherlessai'', ''conda-community'',
  ''ip-githubmodels'', ''cr-digitalocean'', ''ip-huggingface'',
  ''ip-perplexity'', ''ip-braintrust'', ''ip-openrouter'',
  ''ip-hyperbolic'', ''cr-cloudsmith'', ''homebrew-api'', ''ip-anthropic'',
  ''ip-mistralai'', ''ip-nvidiaapi'', ''ip-sambanova'', ''ip-replicate'',
  ''ip-fireworks'', ''ip-burncloud'', ''ip-vertexai'', ''ip-cerebras'',
  ''ip-together'', ''ip-voyageai'', ''cr-opensuse'', ''pypi-files'',
  ''packagist'', ''ip-openai'', ''ip-gemini'', ''ip-cohere'', ''ip-nebius'',
  ''ip-novita'', ''cr-docker'', ''cr-gitlab'', ''cr-redhat'', ''cr-oracle'',
  ''cr-vmware'', ''cr-heroku'', ''cr-gitpod'', ''codeberg'', ''homebrew'',
  ''rubygems'', ''opensuse'', ''ip-siray'', ''ip-falai'', ''civitai'',
  ''jenkins'', ''ip-groq'', ''ip-jina'', ''cr-quay'', ''cr-ghcr'',
  ''cr-suse'', ''apache'', ''gradle'', ''golang'', ''crates'', ''debian'',
  ''ubuntu'', ''fedora'', ''fdroid'', ''ip-xai'', ''ip-poe'', ''cr-gcr'',
  ''cr-mcr'', ''cr-ecr'', ''cr-k8s'', ''gitea'', ''conda'', ''maven'',
  ''nuget'', ''rocky'', ''arxiv'', ''gist'', ''aosp'', ''pypi'', ''cran'',
  ''cpan'', ''ctan'', ''arch'', ''npm'', ''gh'', ''gl'', ''sf'', ''hf'']"
  by code_simp



lemma replaceAll_absent:
  "CHR ''/'' \<notin> set (replaceAll CHR ''-'' ''/'' k) \<Longrightarrow> replaceAll CHR ''-'' ''/'' k = k"
  by (induction k) (auto simp: replaceAll_def split: if_splits)

lemma prefixAll_extends:
  assumes "strict_prefix (prefixAll k1) (prefixAll k2)"
  obtains z where
    "replaceAll CHR ''-'' ''/'' k2 = replaceAll CHR ''-'' ''/'' k1 @ CHR ''/'' # z"
proof -
  from assms obtain y ys where "prefixAll k2 = prefixAll k1 @ y # ys"
    by (auto elim: strict_prefixE')
  then have e: "replaceAll CHR ''-'' ''/'' k2 @ ''/''
      = replaceAll CHR ''-'' ''/'' k1 @ CHR ''/'' # y # ys"
    by (simp add: prefixAll_def)
  have "replaceAll CHR ''-'' ''/'' k2 = butlast (replaceAll CHR ''-'' ''/'' k2 @ ''/'')"
    by simp
  also have "\<dots> = butlast (replaceAll CHR ''-'' ''/'' k1 @ CHR ''/'' # y # ys)"
    by (simp only: e)
  also have "\<dots> = replaceAll CHR ''-'' ''/'' k1 @ CHR ''/'' # butlast (y # ys)"
    by (simp add: butlast_append)
  finally have "replaceAll CHR ''-'' ''/'' k2
      = replaceAll CHR ''-'' ''/'' k1 @ CHR ''/'' # butlast (y # ys)" .
  then show thesis by (rule that)
qed

lemma keys_one_slash:
  "list_all (\<lambda>k. length (filter (\<lambda>c. c = CHR ''/'') (replaceAll CHR ''-'' ''/'' k)) \<le> 1)
     platformKeys"
  by (simp add: platformKeys_eq replaceAll_def)

lemma keys_heads:
  "list_all (\<lambda>k. CHR ''/'' \<in> set (replaceAll CHR ''-'' ''/'' k) \<longrightarrow>
      takeWhile (\<lambda>c. c \<noteq> CHR ''/'') (replaceAll CHR ''-'' ''/'' k) \<in> {''ip'', ''cr''}
      \<or> k \<in> {''pypi-files'', ''conda-community'', ''homebrew-api'', ''homebrew-bottles''})
     platformKeys"
  by (simp add: platformKeys_eq replaceAll_def)

lemma ip_cr_unregistered: "''ip'' \<notin> set platformKeys" "''cr'' \<notin> set platformKeys"
  by (simp_all add: platformKeys_eq)

lemma overlapping_prefixes:
  assumes k1: "k1 \<in> set platformKeys" and k2: "k2 \<in> set platformKeys"
    and sp: "strict_prefix (prefixAll k1) (prefixAll k2)"
  shows "k2 \<in> {''pypi-files'', ''conda-community'', ''homebrew-api'', ''homebrew-bottles''}"
proof -
  let ?R = "replaceAll CHR ''-'' ''/''"
  from sp obtain z where e: "?R k2 = ?R k1 @ CHR ''/'' # z" by (rule prefixAll_extends)
  from keys_one_slash k2 have "length (filter (\<lambda>c. c = CHR ''/'') (?R k2)) \<le> 1"
    unfolding list_all_iff by blast
  with e have "filter (\<lambda>c. c = CHR ''/'') (?R k1) = []" by simp
  then have free: "CHR ''/'' \<notin> set (?R k1)" by (auto simp: filter_empty_conv)
  then have "?R k1 = k1" by (rule replaceAll_absent)
  moreover from free have "takeWhile (\<lambda>c. c \<noteq> CHR ''/'') (?R k2) = ?R k1"
    by (subst e, subst takeWhile_append2) auto
  ultimately have head: "takeWhile (\<lambda>c. c \<noteq> CHR ''/'') (?R k2) = k1" by simp
  from e have "CHR ''/'' \<in> set (?R k2)" by simp
  with keys_heads k2 head
  have "k1 \<in> {''ip'', ''cr''}
      \<or> k2 \<in> {''pypi-files'', ''conda-community'', ''homebrew-api'', ''homebrew-bottles''}"
    unfolding list_all_iff by blast
  with k1 ip_cr_unregistered show ?thesis by auto
qed

lemma detect_pypi_files: "detectPlatform (''/pypi/files/'' @ r) = Some ''pypi-files''"
  by (simp add: detectPlatform_def SORTED_PLATFORMS_eq prefixFirst_def startsWith_def)

lemma detect_conda_community:
  "detectPlatform (''/conda/community/'' @ r) = Some ''conda-community''"
  by (simp add: detectPlatform_def SORTED_PLATFORMS_eq prefixFirst_def startsWith_def)

lemma detect_homebrew_api: "detectPlatform (''/homebrew/api/'' @ r) = Some ''homebrew-api''"
  by (simp add: detectPlatform_def SORTED_PLATFORMS_eq prefixFirst_def startsWith_def)

lemma detect_homebrew_bottles:
  "detectPlatform (''/homebrew/bottles/'' @ r) = Some ''homebrew-bottles''"
  by (simp add: detectPlatform_def SORTED_PLATFORMS_eq prefixFirst_def startsWith_def)

lemma detect_cr_docker: "detectPlatform (''/cr/docker/'' @ r) = Some ''cr-docker''"
  by (simp add: detectPlatform_def SORTED_PLATFORMS_eq prefixFirst_def startsWith_def)

lemma startsWith_appendE:
  assumes "startsWith p q" obtains r where "p = q @ r"
  using assms unfolding startsWith_def prefix_def by blast

lemma SORTED_PLATFORMS_descending:
  "sorted_wrt (\<lambda>a b. length (prefixFirst b) \<le> length (prefixFirst a)) SORTED_PLATFORMS"
proof -
  have "sorted (map (\<lambda>key. - int (length (prefixFirst key))) SORTED_PLATFORMS)"
    unfolding SORTED_PLATFORMS_def by (rule sorted_sort_key)
  then show ?thesis
    by (simp add: sorted_map sorted_wrt_iff_nth_less)
qed

lemma SORTED_PLATFORMS_same_keys: "set SORTED_PLATFORMS = set platformKeys"
  by (simp add: SORTED_PLATFORMS_def)

text \<open>
  Claim C3. Whenever the prefix of one registered key is a proper prefix of the prefix of
  another, a path that begins with the longer prefix (and so with both) is detected as the
  key with the longer prefix. Every path that begins with \<^verbatim>\<open>/cr/docker/\<close> is detected as
  \<^verbatim>\<open>cr-docker\<close>. The candidates are tried in order of descending prefix length, and they
  are exactly the registered keys.
\<close>

theorem detectPlatform_prefers_longer_prefix:
  "(\<forall>k1 \<in> set platformKeys. \<forall>k2 \<in> set platformKeys. \<forall>p.
      strict_prefix (prefixAll k1) (prefixAll k2) \<and> startsWith p (prefixAll k2)
      \<longrightarrow> detectPlatform p = Some k2)
   \<and> (\<forall>p. startsWith p ''/cr/docker/'' \<longrightarrow> detectPlatform p = Some ''cr-docker'')
   \<and> sorted_wrt (\<lambda>a b. length (prefixFirst b) \<le> length (prefixFirst a)) SORTED_PLATFORMS
   \<and> set SORTED_PLATFORMS = set platformKeys"
proof (intro conjI ballI allI impI)
  fix k1 k2 p
  assume k1: "k1 \<in> set platformKeys" and k2: "k2 \<in> set platformKeys"
    and h: "strict_prefix (prefixAll k1) (prefixAll k2) \<and> startsWith p (prefixAll k2)"
  from h obtain r where p: "p = prefixAll k2 @ r" by (blast elim: startsWith_appendE)
  from overlapping_prefixes [OF k1 k2] h
  have "k2 \<in> {''pypi-files'', ''conda-community'', ''homebrew-api'', ''homebrew-bottles''}"
    by blast
  then consider "k2 = ''pypi-files''" | "k2 = ''conda-community''"
    | "k2 = ''homebrew-api''" | "k2 = ''homebrew-bottles''" by blast
  then show "detectPlatform p = Some k2"
  proof cases
    case 1
    then have "p = ''/pypi/files/'' @ r" using p by (simp add: prefixAll_def replaceAll_def)
    then show ?thesis using 1 detect_pypi_files by simp
  next
    case 2
    then have "p = ''/conda/community/'' @ r" using p by (simp add: prefixAll_def replaceAll_def)
    then show ?thesis using 2 detect_conda_community by simp
  next
    case 3
    then have "p = ''/homebrew/api/'' @ r" using p by (simp add: prefixAll_def replaceAll_def)
    then show ?thesis using 3 detect_homebrew_api by simp
  next
    case 4
    then have "p = ''/homebrew/bottles/'' @ r" using p by (simp add: prefixAll_def replaceAll_def)
    then show ?thesis using 4 detect_homebrew_bottles by simp
  qed
next
  fix p assume "startsWith p ''/cr/docker/''"
  then obtain r where "p = ''/cr/docker/'' @ r" by (rule startsWith_appendE)
  then show "detectPlatform p = Some ''cr-docker''" using detect_cr_docker by simp
next
  show "sorted_wrt (\<lambda>a b. length (prefixFirst b) \<le> length (prefixFirst a)) SORTED_PLATFORMS"
    by (rule SORTED_PLATFORMS_descending)
  show "set SORTED_PLATFORMS = set platformKeys" by (rule SORTED_PLATFORMS_same_keys)
qed

theorem detectPlatform_prefers_longer_prefix_witness:
  "''homebrew'' \<in> set platformKeys \<and> ''homebrew-api'' \<in> set platformKeys
   \<and> strict_prefix (prefixAll ''homebrew'') (prefixAll ''homebrew-api'')
   \<and> startsWith ''/homebrew/api/formula/git.json'' (prefixAll ''homebrew-api'')
   \<and> detectPlatform ''/homebrew/api/formula/git.json'' = Some ''homebrew-api''
   \<and> startsWith ''/cr/docker/library/ubuntu/manifests/latest'' ''/cr/docker/''
   \<and> detectPlatform ''/cr/docker/library/ubuntu/manifests/latest'' = Some ''cr-docker''"
proof -
  have a: "''homebrew'' \<in> set platformKeys" "''homebrew-api'' \<in> set platformKeys"
    by (simp_all add: platformKeys_eq)
  have b: "strict_prefix (prefixAll ''homebrew'') (prefixAll ''homebrew-api'')"
    "startsWith ''/homebrew/api/formula/git.json'' (prefixAll ''homebrew-api'')"
    "startsWith ''/cr/docker/library/ubuntu/manifests/latest'' ''/cr/docker/''"
    by (simp_all add: prefixAll_def replaceAll_def startsWith_def strict_prefix_def)
  from detectPlatform_prefers_longer_prefix a b show ?thesis by blast
qed

subsection \<open>Docker scope derivation\<close>

lemma str_split_nonempty: "str_split c s \<noteq> []"
  by (induction s) (auto split: list.splits)

lemma str_split_append:
  "str_split c (xs @ c # ys) = str_split c xs @ str_split c ys"
proof (induction xs)
  case Nil
  show ?case by simp
next
  case (Cons x xs)
  obtain p ps where "str_split c xs = p # ps"
    using str_split_nonempty [of c xs] by (cases "str_split c xs") auto
  with Cons show ?case by simp
qed

lemma str_split_absent: "c \<notin> set s \<Longrightarrow> str_split c s = [s]"
  by (induction s) auto

lemma str_includes_char: "str_includes s [c] \<longleftrightarrow> c \<in> set s"
  by (induction s) auto

lemma getScope_catalog:
  assumes "''_catalog'' \<in> set (str_split CHR ''/'' pathname)"
  shows "getScopeFromUrl pathname effectivePath platform = ''registry:catalog:*''"
  using assms by (simp add: getScopeFromUrl_def)

lemma getScope_library:
  assumes name: "name \<noteq> []" "CHR ''/'' \<notin> set name" "name \<notin> set suffixSegments"
    "name \<noteq> ''_catalog''"
    and sfx: "sfx \<in> set suffixSegments"
    and tail: "''_catalog'' \<notin> set (str_split CHR ''/'' tail)"
  shows "getScopeFromUrl (''/v2/cr/docker/'' @ name @ ''/'' @ sfx @ ''/'' @ tail)
           (stripV2 (''/v2/cr/docker/'' @ name @ ''/'' @ sfx @ ''/'' @ tail)) ''cr-docker''
         = ''repository:library/'' @ name @ '':pull''"
proof -
  let ?path = "''/v2/cr/docker/'' @ name @ ''/'' @ sfx @ ''/'' @ tail"
  have sfx_plain: "CHR ''/'' \<notin> set sfx" "sfx \<noteq> ''_catalog''"
    using sfx by (auto simp: suffixSegments_def)
  have body: "str_split CHR ''/'' (name @ CHR ''/'' # sfx @ CHR ''/'' # tail)
      = [name, sfx] @ str_split CHR ''/'' tail"
    using name(2) sfx_plain(1) by (simp add: str_split_append str_split_absent)
  have e1: "?path = ''/v2/cr/docker'' @ CHR ''/'' # (name @ CHR ''/'' # sfx @ CHR ''/'' # tail)"
    by simp
  have "str_split CHR ''/'' ?path
      = str_split CHR ''/'' ''/v2/cr/docker''
        @ str_split CHR ''/'' (name @ CHR ''/'' # sfx @ CHR ''/'' # tail)"
    by (subst e1) (rule str_split_append)
  moreover have "str_split CHR ''/'' ''/v2/cr/docker'' = [[], ''v2'', ''cr'', ''docker'']"
    by simp
  ultimately have parts: "str_split CHR ''/'' ?path
      = [[], ''v2'', ''cr'', ''docker'', name, sfx] @ str_split CHR ''/'' tail"
    by (simp only: body) simp
  have eff: "stripV2 ?path = ''/cr/docker/'' @ name @ CHR ''/'' # sfx @ CHR ''/'' # tail"
    by (simp add: stripV2_def startsWith_def)
  have repo: "repoNameOf ([name, sfx] @ str_split CHR ''/'' tail) = name"
    using name(3) sfx by (simp add: repoNameOf_def)
  have norm: "normalizeRepoName ''cr-docker'' name = ''library/'' @ name"
    using name(1,2) by (simp add: normalizeRepoName_def str_includes_char)
  have nocat: "''_catalog'' \<notin> set (str_split CHR ''/'' ?path)"
    unfolding parts using name(4) sfx_plain(2) tail by simp
  have pfx: "prefixAll ''cr-docker'' = ''/cr/docker/''"
    by (simp add: prefixAll_def replaceAll_def)
  show ?thesis
    unfolding getScopeFromUrl_def Let_def pfx eff
    using nocat parts body repo norm
    by (simp add: startsWith_def)
qed


lemma normalizeRepoName_empty: "normalizeRepoName platform r = [] \<longleftrightarrow> r = []"
  by (simp add: normalizeRepoName_def)

lemma getScope_empty_iff:
  "getScopeFromUrl pathname effectivePath platform = [] \<longleftrightarrow>
     ''_catalog'' \<notin> set (str_split CHR ''/'' pathname) \<and>
     \<not> (4 \<le> length (str_split CHR ''/'' pathname) \<and> str_split CHR ''/'' pathname ! 1 = ''v2''
        \<and> startsWith effectivePath (prefixAll platform)
        \<and> repoNameOf (str_split CHR ''/'' (drop (length (prefixAll platform)) effectivePath))
            \<noteq> [])"
  by (auto simp add: getScopeFromUrl_def Let_def normalizeRepoName_empty)

text \<open>
  Claim C4, as amended. The request path \<^verbatim>\<open>/v2/cr/docker/library/ubuntu/manifests/latest\<close>
  with platform \<^verbatim>\<open>cr-docker\<close> gives \<^verbatim>\<open>repository:library/ubuntu:pull\<close>; every path with a
  \<^verbatim>\<open>_catalog\<close> segment gives \<^verbatim>\<open>registry:catalog:*\<close>; for \<^verbatim>\<open>cr-docker\<close> a non-empty
  repository name without a slash is prefixed with \<^verbatim>\<open>library/\<close>, both in the helper and
  end to end on a path \<^verbatim>\<open>/v2/cr/docker/<name>/<suffix>/<tail>\<close>; and the result is empty
  exactly when the path has no \<^verbatim>\<open>_catalog\<close> segment and it is not a \<^verbatim>\<open>/v2\<close> path of at least
  four segments whose effective path begins with the platform prefix and leaves a
  non-empty repository name. A suffix segment is not required: without one the whole
  remainder is the repository name.
\<close>

theorem getScopeFromUrl_scopes:
  "getScopeFromUrl ''/v2/cr/docker/library/ubuntu/manifests/latest''
      (stripV2 ''/v2/cr/docker/library/ubuntu/manifests/latest'') ''cr-docker''
     = ''repository:library/ubuntu:pull''
   \<and> (\<forall>pathname effectivePath platform.
        ''_catalog'' \<in> set (str_split CHR ''/'' pathname) \<longrightarrow>
        getScopeFromUrl pathname effectivePath platform = ''registry:catalog:*'')
   \<and> (\<forall>repoName. repoName \<noteq> [] \<and> CHR ''/'' \<notin> set repoName \<longrightarrow>
        normalizeRepoName ''cr-docker'' repoName = ''library/'' @ repoName)
   \<and> (\<forall>name sfx tail.
        name \<noteq> [] \<and> CHR ''/'' \<notin> set name \<and> name \<notin> set suffixSegments
        \<and> name \<noteq> ''_catalog'' \<and> sfx \<in> set suffixSegments
        \<and> ''_catalog'' \<notin> set (str_split CHR ''/'' tail) \<longrightarrow>
        getScopeFromUrl (''/v2/cr/docker/'' @ name @ ''/'' @ sfx @ ''/'' @ tail)
          (stripV2 (''/v2/cr/docker/'' @ name @ ''/'' @ sfx @ ''/'' @ tail)) ''cr-docker''
        = ''repository:library/'' @ name @ '':pull'')
   \<and> (\<forall>pathname effectivePath platform.
        getScopeFromUrl pathname effectivePath platform = [] \<longleftrightarrow>
          ''_catalog'' \<notin> set (str_split CHR ''/'' pathname) \<and>
          \<not> (4 \<le> length (str_split CHR ''/'' pathname)
             \<and> str_split CHR ''/'' pathname ! 1 = ''v2''
             \<and> startsWith effectivePath (prefixAll platform)
             \<and> repoNameOf (str_split CHR ''/''
                   (drop (length (prefixAll platform)) effectivePath)) \<noteq> []))"
proof (intro conjI allI impI)
  show "getScopeFromUrl ''/v2/cr/docker/library/ubuntu/manifests/latest''
      (stripV2 ''/v2/cr/docker/library/ubuntu/manifests/latest'') ''cr-docker''
     = ''repository:library/ubuntu:pull''"
    by (simp add: getScopeFromUrl_def stripV2_def startsWith_def prefixAll_def replaceAll_def
        repoNameOf_def suffixSegments_def normalizeRepoName_def)
next
  fix pathname effectivePath platform
  assume "''_catalog'' \<in> set (str_split CHR ''/'' pathname)"
  then show "getScopeFromUrl pathname effectivePath platform = ''registry:catalog:*''"
    by (rule getScope_catalog)
next
  fix repoName :: string
  assume "repoName \<noteq> [] \<and> CHR ''/'' \<notin> set repoName"
  then show "normalizeRepoName ''cr-docker'' repoName = ''library/'' @ repoName"
    by (simp add: normalizeRepoName_def str_includes_char)
next
  fix name sfx tail
  assume "name \<noteq> [] \<and> CHR ''/'' \<notin> set name \<and> name \<notin> set suffixSegments
        \<and> name \<noteq> ''_catalog'' \<and> sfx \<in> set suffixSegments
        \<and> ''_catalog'' \<notin> set (str_split CHR ''/'' tail)"
  then show "getScopeFromUrl (''/v2/cr/docker/'' @ name @ ''/'' @ sfx @ ''/'' @ tail)
          (stripV2 (''/v2/cr/docker/'' @ name @ ''/'' @ sfx @ ''/'' @ tail)) ''cr-docker''
        = ''repository:library/'' @ name @ '':pull''"
    using getScope_library by blast
next
  fix pathname effectivePath platform
  show "getScopeFromUrl pathname effectivePath platform = [] \<longleftrightarrow>
          ''_catalog'' \<notin> set (str_split CHR ''/'' pathname) \<and>
          \<not> (4 \<le> length (str_split CHR ''/'' pathname)
             \<and> str_split CHR ''/'' pathname ! 1 = ''v2''
             \<and> startsWith effectivePath (prefixAll platform)
             \<and> repoNameOf (str_split CHR ''/''
                   (drop (length (prefixAll platform)) effectivePath)) \<noteq> [])"
    by (rule getScope_empty_iff)
qed

theorem getScopeFromUrl_scopes_witness:
  "''_catalog'' \<in> set (str_split CHR ''/'' ''/v2/_catalog'')
   \<and> getScopeFromUrl ''/v2/_catalog'' (stripV2 ''/v2/_catalog'') ''cr-quay'' = ''registry:catalog:*''
   \<and> normalizeRepoName ''cr-docker'' ''nginx'' = ''library/nginx''
   \<and> getScopeFromUrl ''/v2/cr/docker/nginx/blobs/sha256:0a1b''
        (stripV2 ''/v2/cr/docker/nginx/blobs/sha256:0a1b'') ''cr-docker''
      = ''repository:library/nginx:pull''
   \<and> getScopeFromUrl ''/cr/docker/nginx'' (stripV2 ''/cr/docker/nginx'') ''cr-docker'' = []"
proof -
  have a: "''_catalog'' \<in> set (str_split CHR ''/'' ''/v2/_catalog'')" by simp
  have b: "''nginx'' \<noteq> [] \<and> CHR ''/'' \<notin> set ''nginx''" by simp
  have c: "''nginx'' \<noteq> [] \<and> CHR ''/'' \<notin> set ''nginx'' \<and> ''nginx'' \<notin> set suffixSegments
        \<and> ''nginx'' \<noteq> ''_catalog'' \<and> ''blobs'' \<in> set suffixSegments
        \<and> ''_catalog'' \<notin> set (str_split CHR ''/'' ''sha256:0a1b'')"
    by (simp add: suffixSegments_def)
  have d: "''_catalog'' \<notin> set (str_split CHR ''/'' ''/cr/docker/nginx'') \<and>
          \<not> (4 \<le> length (str_split CHR ''/'' ''/cr/docker/nginx'')
             \<and> str_split CHR ''/'' ''/cr/docker/nginx'' ! 1 = ''v2''
             \<and> startsWith (stripV2 ''/cr/docker/nginx'') (prefixAll ''cr-docker'')
             \<and> repoNameOf (str_split CHR ''/''
                   (drop (length (prefixAll ''cr-docker'')) (stripV2 ''/cr/docker/nginx''))) \<noteq> [])"
    by simp
  have t1: "getScopeFromUrl ''/v2/_catalog'' (stripV2 ''/v2/_catalog'') ''cr-quay''
      = ''registry:catalog:*''"
    using getScopeFromUrl_scopes a by blast
  have t2: "normalizeRepoName ''cr-docker'' ''nginx'' = ''library/'' @ ''nginx''"
    using getScopeFromUrl_scopes b by blast
  have t3: "getScopeFromUrl (''/v2/cr/docker/'' @ ''nginx'' @ ''/'' @ ''blobs'' @ ''/'' @ ''sha256:0a1b'')
          (stripV2 (''/v2/cr/docker/'' @ ''nginx'' @ ''/'' @ ''blobs'' @ ''/'' @ ''sha256:0a1b''))
          ''cr-docker'' = ''repository:library/'' @ ''nginx'' @ '':pull''"
    using getScopeFromUrl_scopes c by blast
  have t4: "getScopeFromUrl ''/cr/docker/nginx'' (stripV2 ''/cr/docker/nginx'') ''cr-docker'' = []"
    using getScopeFromUrl_scopes d by blast
  from a t1 t2 t3 t4 show ?thesis by simp
qed

theorem getScopeFromUrl_no_suffix_counterexample:
  "\<not> spec_repository_shape ''/v2/cr/docker/library/ubuntu'' ''cr-docker''
   \<and> ''_catalog'' \<notin> set (str_split CHR ''/'' ''/v2/cr/docker/library/ubuntu'')
   \<and> getScopeFromUrl ''/v2/cr/docker/library/ubuntu''
        (stripV2 ''/v2/cr/docker/library/ubuntu'') ''cr-docker''
      = ''repository:library/ubuntu:pull''"
  by (simp add: spec_repository_shape_def getScopeFromUrl_def stripV2_def startsWith_def
      prefixAll_def replaceAll_def repoNameOf_def suffixSegments_def normalizeRepoName_def)

subsection \<open>Configuration\<close>

lemma digitChar_digit:
  assumes "d < 10"
  shows "isDigit (digitChar d)" "digitValue (digitChar d) = d"
    "\<not> isWhiteSpace (digitChar d)" "digitChar d \<noteq> CHR ''-''" "digitChar d \<noteq> CHR ''+''"
proof -
  have c: "(of_char (digitChar d) :: nat) = 48 + d"
    using assms by (simp add: digitChar_def)
  show "isDigit (digitChar d)" "digitValue (digitChar d) = d"
    using assms c by (simp_all add: isDigit_def digitValue_def)
  have "(of_char CHR '' '' :: nat) = 32" "(of_char CHR ''-'' :: nat) = 45"
    "(of_char CHR ''+'' :: nat) = 43" "(of_char (CHR 0xA0) :: nat) = 160" by simp_all
  with c assms show "\<not> isWhiteSpace (digitChar d)" "digitChar d \<noteq> CHR ''-''"
    "digitChar d \<noteq> CHR ''+''"
    by (auto simp: isWhiteSpace_def)
qed

lemma showNat_digits: "list_all isDigit (showNat n)"
proof (induction n rule: showNat.induct)
  case (1 n)
  show ?case
  proof (cases "n < 10")
    case True
    then show ?thesis by (subst showNat.simps) (simp add: digitChar_digit)
  next
    case False
    with 1 show ?thesis by (subst showNat.simps) (simp add: digitChar_digit)
  qed
qed

lemma showNat_value: "foldl (\<lambda>acc c. acc * 10 + digitValue c) 0 (showNat n) = n"
proof (induction n rule: showNat.induct)
  case (1 n)
  show ?case
  proof (cases "n < 10")
    case True
    then show ?thesis by (subst showNat.simps) (simp add: digitChar_digit)
  next
    case False
    with 1 show ?thesis by (subst showNat.simps) (simp add: digitChar_digit)
  qed
qed

lemma showNat_head: "\<exists>d ds. showNat n = digitChar d # ds \<and> d < 10"
proof (induction n rule: showNat.induct)
  case (1 n)
  show ?case
  proof (cases "n < 10")
    case True
    then show ?thesis by (subst showNat.simps) auto
  next
    case False
    with 1 obtain d ds where "showNat (n div 10) = digitChar d # ds" "d < 10" by blast
    with False show ?thesis by (subst showNat.simps) auto
  qed
qed

lemma takeWhile_all: "list_all P xs \<Longrightarrow> takeWhile P xs = xs"
  by (induction xs) auto

lemma parseInt_showNat: "parseInt (showNat n) = Some (int n)"
proof -
  obtain d ds where s: "showNat n = digitChar d # ds" "d < 10"
    using showNat_head by blast
  have tw: "takeWhile isDigit (showNat n) = showNat n"
    by (rule takeWhile_all) (rule showNat_digits)
  from s have "dropWhile isWhiteSpace (showNat n) = showNat n"
    by (simp add: digitChar_digit)
  moreover from s have "hd (showNat n) \<noteq> CHR ''-''" "hd (showNat n) \<noteq> CHR ''+''"
    "showNat n \<noteq> []"
    by (simp_all add: digitChar_digit)
  ultimately show ?thesis
    by (simp add: parseInt_def Let_def tw showNat_value)
qed

lemma parseInt_negative: "parseInt (CHR ''-'' # showNat n) = Some (- int n)"
proof -
  obtain d ds where s: "showNat n = digitChar d # ds" "d < 10"
    using showNat_head by blast
  have tw: "takeWhile isDigit (showNat n) = showNat n"
    by (rule takeWhile_all) (rule showNat_digits)
  have "\<not> isWhiteSpace CHR ''-''" by (simp add: isWhiteSpace_def)
  then have "dropWhile isWhiteSpace (CHR ''-'' # showNat n) = CHR ''-'' # showNat n"
    by simp
  moreover from s have "showNat n \<noteq> []" by simp
  ultimately show ?thesis
    by (simp add: parseInt_def Let_def tw showNat_value)
qed

lemma parseInt_zero: "parseInt ''0'' = Some 0"
  by (simp add: parseInt_def isWhiteSpace_def isDigit_def digitValue_def)

lemma intSetting_zero: "e name = Some ''0'' \<Longrightarrow> intSetting e name d = d"
  by (simp add: intSetting_def envString_def parseInt_zero)

lemma intSetting_negative:
  "0 < n \<Longrightarrow> e name = Some (''-'' @ showNat n) \<Longrightarrow> intSetting e name d = - int n"
  by (simp add: intSetting_def envString_def parseInt_negative)


text \<open>
  Claim C9. When a numeric setting is the string \<^verbatim>\<open>0\<close>, \<^verbatim>\<open>createConfig\<close> returns the
  default of that setting (30, 3, 1000, 1800, 2048), and when it is a minus sign followed
  by the decimal digits of a positive integer \<open>n\<close> (within the range where doubles are
  exact) it returns \<open>- n\<close>.
\<close>

theorem createConfig_zero_and_negative:
  "(\<forall>e. e ''TIMEOUT_SECONDS'' = Some ''0'' \<longrightarrow> TIMEOUT_SECONDS (createConfig e) = 30)
   \<and> (\<forall>e. e ''MAX_RETRIES'' = Some ''0'' \<longrightarrow> MAX_RETRIES (createConfig e) = 3)
   \<and> (\<forall>e. e ''RETRY_DELAY_MS'' = Some ''0'' \<longrightarrow> RETRY_DELAY_MS (createConfig e) = 1000)
   \<and> (\<forall>e. e ''CACHE_DURATION'' = Some ''0'' \<longrightarrow> CACHE_DURATION (createConfig e) = 1800)
   \<and> (\<forall>e. e ''MAX_PATH_LENGTH'' = Some ''0'' \<longrightarrow>
         MAX_PATH_LENGTH (SECURITY (createConfig e)) = 2048)
   \<and> (\<forall>e n. 0 < n \<and> n \<le> 2 ^ 53 \<and> e ''TIMEOUT_SECONDS'' = Some (''-'' @ showNat n) \<longrightarrow>
         TIMEOUT_SECONDS (createConfig e) = - int n)
   \<and> (\<forall>e n. 0 < n \<and> n \<le> 2 ^ 53 \<and> e ''MAX_RETRIES'' = Some (''-'' @ showNat n) \<longrightarrow>
         MAX_RETRIES (createConfig e) = - int n)
   \<and> (\<forall>e n. 0 < n \<and> n \<le> 2 ^ 53 \<and> e ''RETRY_DELAY_MS'' = Some (''-'' @ showNat n) \<longrightarrow>
         RETRY_DELAY_MS (createConfig e) = - int n)
   \<and> (\<forall>e n. 0 < n \<and> n \<le> 2 ^ 53 \<and> e ''CACHE_DURATION'' = Some (''-'' @ showNat n) \<longrightarrow>
         CACHE_DURATION (createConfig e) = - int n)
   \<and> (\<forall>e n. 0 < n \<and> n \<le> 2 ^ 53 \<and> e ''MAX_PATH_LENGTH'' = Some (''-'' @ showNat n) \<longrightarrow>
         MAX_PATH_LENGTH (SECURITY (createConfig e)) = - int n)"
  by (simp add: createConfig_def intSetting_zero intSetting_negative)

theorem createConfig_zero_and_negative_witness:
  "TIMEOUT_SECONDS (createConfig [''TIMEOUT_SECONDS'' \<mapsto> ''0'']) = 30
   \<and> MAX_RETRIES (createConfig [''MAX_RETRIES'' \<mapsto> ''0'']) = 3
   \<and> RETRY_DELAY_MS (createConfig [''RETRY_DELAY_MS'' \<mapsto> ''0'']) = 1000
   \<and> CACHE_DURATION (createConfig [''CACHE_DURATION'' \<mapsto> ''0'']) = 1800
   \<and> MAX_PATH_LENGTH (SECURITY (createConfig [''MAX_PATH_LENGTH'' \<mapsto> ''0''])) = 2048
   \<and> showNat 5 = ''5''
   \<and> MAX_RETRIES (createConfig [''MAX_RETRIES'' \<mapsto> ''-5'']) = - 5"
proof -
  have five: "showNat 5 = ''5''"
    by code_simp
  have neg: "(0::nat) < 5 \<and> (5::nat) \<le> 2 ^ 53
      \<and> [''MAX_RETRIES'' \<mapsto> ''-5''] ''MAX_RETRIES'' = Some (''-'' @ showNat 5)"
    by (simp add: five)
  have "MAX_RETRIES (createConfig [''MAX_RETRIES'' \<mapsto> ''-5'']) = - int 5"
    using createConfig_zero_and_negative neg by blast
  moreover have "TIMEOUT_SECONDS (createConfig [''TIMEOUT_SECONDS'' \<mapsto> ''0'']) = 30"
    "MAX_RETRIES (createConfig [''MAX_RETRIES'' \<mapsto> ''0'']) = 3"
    "RETRY_DELAY_MS (createConfig [''RETRY_DELAY_MS'' \<mapsto> ''0'']) = 1000"
    "CACHE_DURATION (createConfig [''CACHE_DURATION'' \<mapsto> ''0'']) = 1800"
    "MAX_PATH_LENGTH (SECURITY (createConfig [''MAX_PATH_LENGTH'' \<mapsto> ''0''])) = 2048"
    using createConfig_zero_and_negative by simp_all
  ultimately show ?thesis using five by simp
qed

subsection \<open>Error responses\<close>

lemma lower_names:
  "toLowerCase ''Content-Type'' = ''content-type''"
  "toLowerCase ''Strict-Transport-Security'' = ''strict-transport-security''"
  "toLowerCase ''X-Frame-Options'' = ''x-frame-options''"
  "toLowerCase ''X-XSS-Protection'' = ''x-xss-protection''"
  "toLowerCase ''Referrer-Policy'' = ''referrer-policy''"
  "toLowerCase ''Content-Security-Policy'' = ''content-security-policy''"
  "toLowerCase ''Permissions-Policy'' = ''permissions-policy''"
  by code_simp+

lemma addSecurityHeaders_get:
  "hget ''Strict-Transport-Security'' (addSecurityHeaders hs)
     = Some ''max-age=31536000; includeSubDomains; preload''"
  "hget ''X-Frame-Options'' (addSecurityHeaders hs) = Some ''DENY''"
  "hget ''X-XSS-Protection'' (addSecurityHeaders hs) = Some ''1; mode=block''"
  "hget ''Referrer-Policy'' (addSecurityHeaders hs) = Some ''strict-origin-when-cross-origin''"
  "hget ''Content-Security-Policy'' (addSecurityHeaders hs) = Some contentSecurityPolicy"
  "hget ''Permissions-Policy'' (addSecurityHeaders hs) = Some ''interest-cohort=()''"
  "hget ''Content-Type'' (addSecurityHeaders hs) = hget ''Content-Type'' hs"
  by (simp_all add: addSecurityHeaders_def hget_def hset_def lower_names)

lemma newResponse_text_Inr:
  assumes "newResponse (TextBody b) st hs = Inr r" and "hget ''Content-Type'' hs \<noteq> None"
  shows "status r = st \<and> headers r = hs \<and> body r = Some b"
  using assms by (auto simp: newResponse_def split: if_splits)

lemma createErrorResponse_Inr:
  assumes "createErrorResponse now message st includeDetails = Inr r"
  shows "status r = st"
    and "headers r = addSecurityHeaders
           (hset ''Content-Type''
              (if includeDetails then ''application/json'' else ''text/plain'') Map.empty)"
    and "body r = Some (if includeDetails then errorJson now message st else message)"
proof -
  let ?hs = "addSecurityHeaders
           (hset ''Content-Type''
              (if includeDetails then ''application/json'' else ''text/plain'') Map.empty)"
  have "hget ''Content-Type'' ?hs \<noteq> None"
    by (subst addSecurityHeaders_get) (simp add: hget_def hset_def)
  moreover from assms
  have "newResponse (TextBody (if includeDetails then errorJson now message st else message))
          st ?hs = Inr r"
    by (simp add: createErrorResponse_def Let_def)
  ultimately have "status r = st \<and> headers r = ?hs
      \<and> body r = Some (if includeDetails then errorJson now message st else message)"
    by (rule newResponse_text_Inr [rotated])
  then show "status r = st" and "headers r = ?hs"
    and "body r = Some (if includeDetails then errorJson now message st else message)"
    by simp_all
qed

lemma createErrorResponse_total:
  assumes "200 \<le> st" "st \<le> 599" "st \<noteq> 204" "st \<noteq> 205" "st \<noteq> 304"
  shows "createErrorResponse now message st includeDetails =
     Inr \<lparr> status = st,
           headers = addSecurityHeaders
             (hset ''Content-Type''
                (if includeDetails then ''application/json'' else ''text/plain'') Map.empty),
           body = Some (if includeDetails then errorJson now message st else message) \<rparr>"
proof -
  have "hget ''Content-Type'' (addSecurityHeaders
           (hset ''Content-Type''
              (if includeDetails then ''application/json'' else ''text/plain'') Map.empty))
        \<noteq> None"
    by (subst addSecurityHeaders_get) (simp add: hget_def hset_def)
  with assms show ?thesis
    by (cases includeDetails) (auto simp: createErrorResponse_def newResponse_def Let_def)
qed

text \<open>
  Claim C10. Every response that \<^verbatim>\<open>createErrorResponse\<close> produces carries the six security
  headers, has the status it was given, and has the content type \<^verbatim>\<open>application/json\<close>
  with details and \<^verbatim>\<open>text/plain\<close> without; and it produces a response for every status
  the \<^verbatim>\<open>Response\<close> constructor accepts with a body.
\<close>

theorem createErrorResponse_secure:
  "(\<forall>r. createErrorResponse now message st includeDetails = Inr r \<longrightarrow>
      hget ''Strict-Transport-Security'' (headers r)
        = Some ''max-age=31536000; includeSubDomains; preload''
      \<and> hget ''X-Frame-Options'' (headers r) = Some ''DENY''
      \<and> hget ''X-XSS-Protection'' (headers r) = Some ''1; mode=block''
      \<and> hget ''Referrer-Policy'' (headers r) = Some ''strict-origin-when-cross-origin''
      \<and> hget ''Content-Security-Policy'' (headers r) = Some contentSecurityPolicy
      \<and> hget ''Permissions-Policy'' (headers r) = Some ''interest-cohort=()''
      \<and> status r = st
      \<and> hget ''Content-Type'' (headers r)
          = Some (if includeDetails then ''application/json'' else ''text/plain''))
   \<and> (200 \<le> st \<and> st \<le> 599 \<and> st \<noteq> 204 \<and> st \<noteq> 205 \<and> st \<noteq> 304 \<longrightarrow>
        (\<exists>r. createErrorResponse now message st includeDetails = Inr r))"
proof -
  have produced: "hget ''Strict-Transport-Security'' (headers r)
        = Some ''max-age=31536000; includeSubDomains; preload''
      \<and> hget ''X-Frame-Options'' (headers r) = Some ''DENY''
      \<and> hget ''X-XSS-Protection'' (headers r) = Some ''1; mode=block''
      \<and> hget ''Referrer-Policy'' (headers r) = Some ''strict-origin-when-cross-origin''
      \<and> hget ''Content-Security-Policy'' (headers r) = Some contentSecurityPolicy
      \<and> hget ''Permissions-Policy'' (headers r) = Some ''interest-cohort=()''
      \<and> status r = st
      \<and> hget ''Content-Type'' (headers r)
          = Some (if includeDetails then ''application/json'' else ''text/plain'')"
    if "createErrorResponse now message st includeDetails = Inr r" for r
  proof -
    from that have r: "status r = st"
      "headers r = addSecurityHeaders
         (hset ''Content-Type''
            (if includeDetails then ''application/json'' else ''text/plain'') Map.empty)"
      by (rule createErrorResponse_Inr)+
    show ?thesis
      unfolding r addSecurityHeaders_get by (simp add: hget_def hset_def)
  qed
  have total: "\<exists>r. createErrorResponse now message st includeDetails = Inr r"
    if "200 \<le> st \<and> st \<le> 599 \<and> st \<noteq> 204 \<and> st \<noteq> 205 \<and> st \<noteq> 304"
    using that by (simp add: createErrorResponse_total)
  from produced total show ?thesis by blast
qed

theorem createErrorResponse_secure_witness:
  "(\<exists>r. createErrorResponse ''2025-01-01T00:00:00.000Z'' ''Request timeout'' 408 False = Inr r
      \<and> hget ''X-Frame-Options'' (headers r) = Some ''DENY''
      \<and> hget ''Content-Security-Policy'' (headers r)
          = Some (''default-src '' @ [CHR 0x27] @ ''none'' @ [CHR 0x27] @ ''; img-src ''
                  @ [CHR 0x27] @ ''self'' @ [CHR 0x27] @ ''; script-src ''
                  @ [CHR 0x27] @ ''none'' @ [CHR 0x27])
      \<and> status r = 408
      \<and> hget ''Content-Type'' (headers r) = Some ''text/plain''
      \<and> body r = Some ''Request timeout'')"
proof -
  have "(200::int) \<le> 408 \<and> (408::int) \<le> 599 \<and> (408::int) \<noteq> 204 \<and> (408::int) \<noteq> 205
      \<and> (408::int) \<noteq> 304" by simp
  with createErrorResponse_secure [of "''2025-01-01T00:00:00.000Z''" "''Request timeout''" 408 False]
  obtain r where r: "createErrorResponse ''2025-01-01T00:00:00.000Z'' ''Request timeout'' 408 False = Inr r"
    by blast
  with createErrorResponse_secure [of "''2025-01-01T00:00:00.000Z''" "''Request timeout''" 408 False]
  have "hget ''X-Frame-Options'' (headers r) = Some ''DENY''"
    "hget ''Content-Security-Policy'' (headers r) = Some contentSecurityPolicy"
    "status r = 408" "hget ''Content-Type'' (headers r) = Some ''text/plain''"
    by simp_all
  moreover from r have "body r = Some ''Request timeout''"
    by (simp add: createErrorResponse_Inr)
  ultimately show ?thesis using r
    by (simp add: contentSecurityPolicy_def quoted_def)
qed

subsection \<open>Retry loop helpers\<close>

lemma doCall_snd: "snd (doCall w tr cl) = tr @ [Called cl]"
  by (simp add: doCall_def)









lemma onError_abort:
  assumes "errName e = ''AbortError''"
  shows "\<exists>r. onError w c a e resp tr = Inr (Break r, tr)
           \<and> createErrorResponse (w_clock w tr) ''Request timeout'' 408 False = Inr r"
  using assms by (simp add: onError_def createErrorResponse_total)



subsection \<open>Attempt counting\<close>










subsection \<open>Loop scenarios\<close>










lemma afterLoop_error:
  assumes "\<not> ok r" "status r \<noteq> 206" "\<not> (rq_isDocker c \<and> status r = 401)"
    and "200 \<le> status r" "status r \<le> 599"
    and "status r \<noteq> 204" "status r \<noteq> 205" "status r \<noteq> 304"
  shows "\<exists>rf. afterLoop w c (Inr (Some r, t)) = (Inr rf, t @ [Marked ''complete''])
           \<and> status rf = status r
           \<and> body rf = Some (errorJson (w_clock w t)
                 (''Upstream server error ('' @ showInt (status r) @ ''): '' @ bodyText r)
                 (status r))"
proof -
  let ?msg = "''Upstream server error ('' @ showInt (status r) @ ''): '' @ bodyText r"
  have pe: "processError w c r t = createErrorResponse (w_clock w t) ?msg (status r) True"
    using assms(3) by (auto simp: processError_def)
  note tot = createErrorResponse_total [OF assms(4-8), of "w_clock w t" ?msg True]
  have pr: "processResponse w c (Some r) t = Inr (the_inr, t)"
    if "the_inr = \<lparr> status = status r,
           headers = addSecurityHeaders (hset ''Content-Type'' ''application/json'' Map.empty),
           body = Some (errorJson (w_clock w t) ?msg (status r)) \<rparr>" for the_inr
    using assms(1,2) pe tot that by (simp add: processResponse_def)
  show ?thesis
    using pr [OF refl] assms(4-8)
    by (auto simp: afterLoop_def Let_def addPerformanceHeaders_def newResponse_def)
qed

subsection \<open>Retry and exhaustion\<close>









lemma default_config:
  "MAX_RETRIES (createConfig Map.empty) = 3"
  "RETRY_DELAY_MS (createConfig Map.empty) = 1000"
  "TIMEOUT_SECONDS (createConfig Map.empty) = 30"
  "CACHE_DURATION (createConfig Map.empty) = 1800"
  by code_simp+

lemma exampleRequest_config:
  "MAX_RETRIES (rq_config exampleRequest) = 3"
  "RETRY_DELAY_MS (rq_config exampleRequest) = 1000"
  by (simp_all add: exampleRequest_def default_config)












lemma exampleWorld_simps:
  "w_upstream (exampleWorld up) = up"
  "w_clock (exampleWorld up) t = ''2025-01-01T00:00:00.000Z''"
  "w_cacheMatch (exampleWorld up) t k = Inr None"
  by (simp_all add: exampleWorld_def)




subsection \<open>Timeouts\<close>

lemma showInt_408: "showInt 408 = ''408''"
  by code_simp

lemma firstFetch_throwing:
  assumes "w_upstream w tr (Fetch (rq_targetUrl c) (finalFetchOptions c)) = Inl e"
  shows "firstFetch w c resp tr
     = (Threw e resp, tr @ [Called (Fetch (rq_targetUrl c) (finalFetchOptions c))])"
  using assms by (simp add: firstFetch_def doCall_def)

lemma abort_ends_loop:
  assumes lt: "a < MAX_RETRIES (rq_config c)"
    and ff: "firstFetch w c resp (tr @ [attemptMark a]) = (Threw e rv, t)"
    and ab: "errName e = ''AbortError''"
  shows "\<exists>r rf. retryLoop w c a resp tr = Inr (Some r, t)
           \<and> status r = 408 \<and> body r = Some ''Request timeout''
           \<and> afterLoop w c (retryLoop w c a resp tr) = (Inr rf, t @ [Marked ''complete''])
           \<and> status rf = 408
           \<and> body rf = Some (errorJson (w_clock w t)
                 ''Upstream server error (408): Request timeout'' 408)"
proof -
  from onError_abort [OF ab, of w c a rv t]
  obtain r where oe: "onError w c a e rv t = Inr (Break r, t)"
    and cr: "createErrorResponse (w_clock w t) ''Request timeout'' 408 False = Inr r"
    by blast
  from ff oe have "attempt w c a resp tr = Inr (Break r, t)"
    by (simp add: attempt_def)
  with lt have loop: "retryLoop w c a resp tr = Inr (Some r, t)"
    by (subst retryLoop.simps) simp
  from createErrorResponse_Inr [OF cr]
  have st: "status r = 408" and bd: "body r = Some ''Request timeout''"
    by simp_all
  from st have "\<not> ok r" "status r \<noteq> 206" "\<not> (rq_isDocker c \<and> status r = 401)"
    "200 \<le> status r" "status r \<le> 599" "status r \<noteq> 204" "status r \<noteq> 205" "status r \<noteq> 304"
    by (simp_all add: ok_def)
  from afterLoop_error [OF this, of w t] st bd
  obtain rf where "afterLoop w c (Inr (Some r, t)) = (Inr rf, t @ [Marked ''complete''])"
    "status rf = 408"
    "body rf = Some (errorJson (w_clock w t)
                 ''Upstream server error (408): Request timeout'' 408)"
    by (auto simp: bodyText_def showInt_408)
  with loop st bd show ?thesis by auto
qed

text \<open>
  Claim C8. The timer is armed while \<^verbatim>\<open>firstFetch\<close> runs. When, in any pass of the loop
  and from any state of it, that fetch is aborted, the loop ends at once with the 408
  response \<^verbatim>\<open>Request timeout\<close>: the history \<open>t\<close> ends with the aborted call, nothing is
  slept or fetched after it, and the handler returns status 408 with the message
  \<^verbatim>\<open>Upstream server error (408): Request timeout\<close>. An abort of the main fetch is such a
  case.
\<close>

theorem timeout_returns_408_without_retry:
  "(w_upstream w (tr @ [attemptMark a]) (Fetch (rq_targetUrl c) (finalFetchOptions c)) = Inl e
      \<longrightarrow> firstFetch w c resp (tr @ [attemptMark a])
          = (Threw e resp,
             tr @ [attemptMark a, Called (Fetch (rq_targetUrl c) (finalFetchOptions c))]))
   \<and> (a < MAX_RETRIES (rq_config c)
       \<and> firstFetch w c resp (tr @ [attemptMark a]) = (Threw e rv, t)
       \<and> errName e = ''AbortError''
      \<longrightarrow> (\<exists>r rf. retryLoop w c a resp tr = Inr (Some r, t)
             \<and> status r = 408 \<and> body r = Some ''Request timeout''
             \<and> afterLoop w c (retryLoop w c a resp tr) = (Inr rf, t @ [Marked ''complete''])
             \<and> status rf = 408
             \<and> body rf = Some (errorJson (w_clock w t)
                   ''Upstream server error (408): Request timeout'' 408)))"
proof (intro conjI impI)
  assume "w_upstream w (tr @ [attemptMark a]) (Fetch (rq_targetUrl c) (finalFetchOptions c))
            = Inl e"
  from firstFetch_throwing [OF this, of resp]
  show "firstFetch w c resp (tr @ [attemptMark a])
          = (Threw e resp,
             tr @ [attemptMark a, Called (Fetch (rq_targetUrl c) (finalFetchOptions c))])"
    by simp
next
  assume "a < MAX_RETRIES (rq_config c)
       \<and> firstFetch w c resp (tr @ [attemptMark a]) = (Threw e rv, t)
       \<and> errName e = ''AbortError''"
  then show "\<exists>r rf. retryLoop w c a resp tr = Inr (Some r, t)
             \<and> status r = 408 \<and> body r = Some ''Request timeout''
             \<and> afterLoop w c (retryLoop w c a resp tr) = (Inr rf, t @ [Marked ''complete''])
             \<and> status rf = 408
             \<and> body rf = Some (errorJson (w_clock w t)
                   ''Upstream server error (408): Request timeout'' 408)"
    using abort_ends_loop by blast
qed

text \<open>Claim C8 on a network that times out, in the first pass of a request.\<close>

theorem timeout_returns_408_without_retry_witness:
  "\<exists>rf. handleUpstream (exampleWorld slowUpstream) exampleRequest []
      = (Inr rf,
         [attemptMark 0,
          Called (Fetch (rq_targetUrl exampleRequest) (finalFetchOptions exampleRequest)),
          Marked ''complete''])
     \<and> status rf = 408
     \<and> body rf = Some (errorJson ''2025-01-01T00:00:00.000Z''
           ''Upstream server error (408): Request timeout'' 408)"
proof -
  let ?w = "exampleWorld slowUpstream"
  let ?e = "JsError ''AbortError'' ''The operation was aborted''"
  let ?main = "Fetch (rq_targetUrl exampleRequest) (finalFetchOptions exampleRequest)"
  have up: "w_upstream ?w ([] @ [attemptMark 0]) ?main = Inl ?e"
    by (simp add: exampleWorld_simps slowUpstream_def)
  with timeout_returns_408_without_retry [of ?w "[]" 0 exampleRequest ?e None]
  have ff: "firstFetch ?w exampleRequest None ([] @ [attemptMark 0])
      = (Threw ?e None, [] @ [attemptMark 0, Called ?main])"
    by blast
  have "0 < MAX_RETRIES (rq_config exampleRequest) \<and> errName ?e = ''AbortError''"
    by (simp add: exampleRequest_config)
  with timeout_returns_408_without_retry
         [of ?w "[]" 0 exampleRequest ?e None None "[] @ [attemptMark 0, Called ?main]"] ff
  show ?thesis
    by (auto simp: handleUpstream_def exampleWorld_simps)
qed

subsection \<open>Docker redirects\<close>

lemma hdelete_hget: "hget name (hdelete name hs) = None"
  by (simp add: hget_def hdelete_def)

lemma hset_hget: "hget name (hset name v hs) = Some v"
  by (simp add: hget_def hset_def)

lemma followRedirect_calls:
  "snd (followRedirect w opts r tr) = tr
   \<or> (\<exists>location. snd (followRedirect w opts r tr)
         = tr @ [Called (Fetch location
                   (opts\<lparr> fo_headers := hdelete ''Authorization'' (fo_headers opts),
                          fo_redirect := Follow \<rparr>))])"
  by (auto simp: followRedirect_def doCall_def Let_def split: option.splits sum.splits)

lemma followRedirect_redirected:
  assumes "isRedirectStatus (status r)"
    and "hget ''Location'' (headers r) = Some location" and "location \<noteq> []"
  shows "followRedirect w opts r tr =
     (case w_upstream w tr
             (Fetch location
                (opts\<lparr> fo_headers := hdelete ''Authorization'' (fo_headers opts),
                       fo_redirect := Follow \<rparr>)) of
        Inl e \<Rightarrow> Threw e (Some r)
      | Inr r' \<Rightarrow> Got r',
      tr @ [Called (Fetch location
                   (opts\<lparr> fo_headers := hdelete ''Authorization'' (fo_headers opts),
                          fo_redirect := Follow \<rparr>))])"
  using assms by (simp add: followRedirect_def doCall_def Let_def split: sum.splits)

lemma dockerAuthRetry_redirected:
  assumes ch: "hget ''WWW-Authenticate'' (headers resp) = Some a" "a \<noteq> []"
      "parseAuthenticate a = Inr (realm, service)"
    and tk: "w_upstream w tr
        (FetchToken realm service
           (getScopeFromUrl (rq_pathname c) (rq_effectivePath c) (rq_platform c)) [])
        = Inr tokenResponse"
      "ok tokenResponse" "w_tokenOf w (bodyText tokenResponse) = Some token"
    and rt: "w_upstream w
        (tr @ [Called (FetchToken realm service
           (getScopeFromUrl (rq_pathname c) (rq_effectivePath c) (rq_platform c)) [])])
        (Fetch (rq_targetUrl c)
           ((finalFetchOptions c)
              \<lparr> fo_headers := hset ''Authorization'' (''Bearer '' @ token)
                                (fo_headers (rq_fetchOptions c)),
                fo_redirect := Manual \<rparr>))
        = Inr retryResponse"
    and rd: "isRedirectStatus (status retryResponse)"
      "hget ''Location'' (headers retryResponse) = Some location" "location \<noteq> []"
  shows "dockerAuthRetry w c resp tr
     = (case w_upstream w
               (tr @ [Called (FetchToken realm service
                        (getScopeFromUrl (rq_pathname c) (rq_effectivePath c) (rq_platform c))
                        []),
                      Called (Fetch (rq_targetUrl c)
                        ((finalFetchOptions c)
                           \<lparr> fo_headers := hset ''Authorization'' (''Bearer '' @ token)
                                             (fo_headers (rq_fetchOptions c)),
                             fo_redirect := Manual \<rparr>))])
               (Fetch location
                  ((finalFetchOptions c)
                     \<lparr> fo_headers := hdelete ''Authorization''
                          (hset ''Authorization'' (''Bearer '' @ token)
                             (fo_headers (rq_fetchOptions c))),
                       fo_redirect := Follow \<rparr>)) of
          Inl e \<Rightarrow> None
        | Inr r \<Rightarrow> if ok r then Some r else None,
        tr @ [Called (FetchToken realm service
               (getScopeFromUrl (rq_pathname c) (rq_effectivePath c) (rq_platform c)) []),
             Called (Fetch (rq_targetUrl c)
               ((finalFetchOptions c)
                  \<lparr> fo_headers := hset ''Authorization'' (''Bearer '' @ token)
                                    (fo_headers (rq_fetchOptions c)),
                    fo_redirect := Manual \<rparr>)),
             Called (Fetch location
               ((finalFetchOptions c)
                  \<lparr> fo_headers := hdelete ''Authorization''
                       (hset ''Authorization'' (''Bearer '' @ token)
                          (fo_headers (rq_fetchOptions c))),
                    fo_redirect := Follow \<rparr>))])"
proof -
  let ?tokenCall = "FetchToken realm service
           (getScopeFromUrl (rq_pathname c) (rq_effectivePath c) (rq_platform c)) []"
  let ?retryOptions = "(finalFetchOptions c)
              \<lparr> fo_headers := hset ''Authorization'' (''Bearer '' @ token)
                                (fo_headers (rq_fetchOptions c)),
                fo_redirect := Manual \<rparr>"
  let ?tr2 = "tr @ [Called ?tokenCall, Called (Fetch (rq_targetUrl c) ?retryOptions)]"
  let ?followCall = "Fetch location
                (?retryOptions\<lparr> fo_headers := hdelete ''Authorization'' (fo_headers ?retryOptions),
                       fo_redirect := Follow \<rparr>)"
  note fr = followRedirect_redirected [OF rd, of w ?retryOptions ?tr2]
  show ?thesis
  proof (cases "w_upstream w ?tr2 ?followCall")
    case (Inl e)
    with fr have "followRedirect w ?retryOptions retryResponse ?tr2
        = (Threw e (Some retryResponse), ?tr2 @ [Called ?followCall])"
      by simp
    with ch tk rt Inl show ?thesis
      by (simp add: dockerAuthRetry_def doCall_def Let_def)
  next
    case (Inr r)
    with fr have "followRedirect w ?retryOptions retryResponse ?tr2
        = (Got r, ?tr2 @ [Called ?followCall])"
      by simp
    with ch tk rt Inr show ?thesis
      by (simp add: dockerAuthRetry_def doCall_def Let_def)
  qed
qed

text \<open>
  Claim C6. In the Docker 401 branch, when the challenge parses, the anonymous token is
  obtained and the retry that carries \<^verbatim>\<open>Authorization: Bearer <token>\<close> is answered 301, 302
  or 307 with a \<^verbatim>\<open>Location\<close>, the calls made are the token fetch, the retry, and one fetch of
  the \<^verbatim>\<open>Location\<close> whose headers are the retry's headers with \<^verbatim>\<open>Authorization\<close> deleted:
  that header is absent from it, and its answer, when it is a success, is the result of the
  branch. More generally every call that \<^verbatim>\<open>followRedirect\<close> adds, for any request options,
  is a fetch without an \<^verbatim>\<open>Authorization\<close> header.
\<close>

theorem docker_retry_redirect_drops_authorization:
  "(hget ''WWW-Authenticate'' (headers resp) = Some a \<and> a \<noteq> []
      \<and> parseAuthenticate a = Inr (realm, service)
      \<and> scope = getScopeFromUrl (rq_pathname c) (rq_effectivePath c) (rq_platform c)
      \<and> w_upstream w tr (FetchToken realm service scope []) = Inr tokenResponse
      \<and> ok tokenResponse \<and> w_tokenOf w (bodyText tokenResponse) = Some token
      \<and> retryOptions = (finalFetchOptions c)
              \<lparr> fo_headers := hset ''Authorization'' (''Bearer '' @ token)
                                (fo_headers (rq_fetchOptions c)),
                fo_redirect := Manual \<rparr>
      \<and> w_upstream w (tr @ [Called (FetchToken realm service scope [])])
            (Fetch (rq_targetUrl c) retryOptions) = Inr retryResponse
      \<and> isRedirectStatus (status retryResponse)
      \<and> hget ''Location'' (headers retryResponse) = Some location \<and> location \<noteq> []
    \<longrightarrow> (\<exists>followOptions.
          dockerAuthRetry w c resp tr
            = (case w_upstream w
                      (tr @ [Called (FetchToken realm service scope []),
                             Called (Fetch (rq_targetUrl c) retryOptions)])
                      (Fetch location followOptions) of
                 Inl e \<Rightarrow> None
               | Inr r \<Rightarrow> if ok r then Some r else None,
               tr @ [Called (FetchToken realm service scope []),
                     Called (Fetch (rq_targetUrl c) retryOptions),
                     Called (Fetch location followOptions)])
          \<and> hget ''Authorization'' (fo_headers retryOptions) = Some (''Bearer '' @ token)
          \<and> fo_headers followOptions = hdelete ''Authorization'' (fo_headers retryOptions)
          \<and> hget ''Authorization'' (fo_headers followOptions) = None
          \<and> fo_redirect followOptions = Follow))
   \<and> (snd (followRedirect w opts r tr) = tr
       \<or> (\<exists>location followOptions.
             snd (followRedirect w opts r tr) = tr @ [Called (Fetch location followOptions)]
             \<and> fo_headers followOptions = hdelete ''Authorization'' (fo_headers opts)
             \<and> hget ''Authorization'' (fo_headers followOptions) = None))"
proof (intro conjI impI)
  assume h: "hget ''WWW-Authenticate'' (headers resp) = Some a \<and> a \<noteq> []
      \<and> parseAuthenticate a = Inr (realm, service)
      \<and> scope = getScopeFromUrl (rq_pathname c) (rq_effectivePath c) (rq_platform c)
      \<and> w_upstream w tr (FetchToken realm service scope []) = Inr tokenResponse
      \<and> ok tokenResponse \<and> w_tokenOf w (bodyText tokenResponse) = Some token
      \<and> retryOptions = (finalFetchOptions c)
              \<lparr> fo_headers := hset ''Authorization'' (''Bearer '' @ token)
                                (fo_headers (rq_fetchOptions c)),
                fo_redirect := Manual \<rparr>
      \<and> w_upstream w (tr @ [Called (FetchToken realm service scope [])])
            (Fetch (rq_targetUrl c) retryOptions) = Inr retryResponse
      \<and> isRedirectStatus (status retryResponse)
      \<and> hget ''Location'' (headers retryResponse) = Some location \<and> location \<noteq> []"
  let ?followOptions = "(finalFetchOptions c)
                  \<lparr> fo_headers := hdelete ''Authorization''
                       (hset ''Authorization'' (''Bearer '' @ token)
                          (fo_headers (rq_fetchOptions c))),
                    fo_redirect := Follow \<rparr>"
  have "dockerAuthRetry w c resp tr
            = (case w_upstream w
                      (tr @ [Called (FetchToken realm service scope []),
                             Called (Fetch (rq_targetUrl c) retryOptions)])
                      (Fetch location ?followOptions) of
                 Inl e \<Rightarrow> None
               | Inr r \<Rightarrow> if ok r then Some r else None,
               tr @ [Called (FetchToken realm service scope []),
                     Called (Fetch (rq_targetUrl c) retryOptions),
                     Called (Fetch location ?followOptions)])"
  proof -
    from h have sc: "scope = getScopeFromUrl (rq_pathname c) (rq_effectivePath c) (rq_platform c)"
      and ro: "retryOptions = (finalFetchOptions c)
              \<lparr> fo_headers := hset ''Authorization'' (''Bearer '' @ token)
                                (fo_headers (rq_fetchOptions c)),
                fo_redirect := Manual \<rparr>"
      by blast+
    from h have "hget ''WWW-Authenticate'' (headers resp) = Some a" "a \<noteq> []"
      "parseAuthenticate a = Inr (realm, service)"
      "w_upstream w tr (FetchToken realm service scope []) = Inr tokenResponse"
      "ok tokenResponse" "w_tokenOf w (bodyText tokenResponse) = Some token"
      "w_upstream w (tr @ [Called (FetchToken realm service scope [])])
            (Fetch (rq_targetUrl c) retryOptions) = Inr retryResponse"
      "isRedirectStatus (status retryResponse)"
      "hget ''Location'' (headers retryResponse) = Some location" "location \<noteq> []"
      by blast+
    from dockerAuthRetry_redirected [OF this [unfolded sc ro]]
    show ?thesis unfolding sc ro .
  qed
  moreover have "hget ''Authorization'' (fo_headers retryOptions) = Some (''Bearer '' @ token)"
    using h by (simp add: hset_hget)
  moreover have "fo_headers ?followOptions = hdelete ''Authorization'' (fo_headers retryOptions)"
    using h by simp
  moreover have "hget ''Authorization'' (fo_headers ?followOptions) = None"
    by (simp add: hdelete_hget)
  moreover have "fo_redirect ?followOptions = Follow" by simp
  ultimately show "\<exists>followOptions.
          dockerAuthRetry w c resp tr
            = (case w_upstream w
                      (tr @ [Called (FetchToken realm service scope []),
                             Called (Fetch (rq_targetUrl c) retryOptions)])
                      (Fetch location followOptions) of
                 Inl e \<Rightarrow> None
               | Inr r \<Rightarrow> if ok r then Some r else None,
               tr @ [Called (FetchToken realm service scope []),
                     Called (Fetch (rq_targetUrl c) retryOptions),
                     Called (Fetch location followOptions)])
          \<and> hget ''Authorization'' (fo_headers retryOptions) = Some (''Bearer '' @ token)
          \<and> fo_headers followOptions = hdelete ''Authorization'' (fo_headers retryOptions)
          \<and> hget ''Authorization'' (fo_headers followOptions) = None
          \<and> fo_redirect followOptions = Follow"
    by blast
next
  from followRedirect_calls [of w opts r tr]
  show "snd (followRedirect w opts r tr) = tr
       \<or> (\<exists>location followOptions.
             snd (followRedirect w opts r tr) = tr @ [Called (Fetch location followOptions)]
             \<and> fo_headers followOptions = hdelete ''Authorization'' (fo_headers opts)
             \<and> hget ''Authorization'' (fo_headers followOptions) = None)"
  proof
    assume "snd (followRedirect w opts r tr) = tr"
    then show ?thesis by simp
  next
    assume "\<exists>location. snd (followRedirect w opts r tr)
         = tr @ [Called (Fetch location
                   (opts\<lparr> fo_headers := hdelete ''Authorization'' (fo_headers opts),
                          fo_redirect := Follow \<rparr>))]"
    then obtain location where "snd (followRedirect w opts r tr)
         = tr @ [Called (Fetch location
                   (opts\<lparr> fo_headers := hdelete ''Authorization'' (fo_headers opts),
                          fo_redirect := Follow \<rparr>))]"
      by blast
    moreover have "hget ''Authorization''
        (fo_headers (opts\<lparr> fo_headers := hdelete ''Authorization'' (fo_headers opts),
                          fo_redirect := Follow \<rparr>)) = None"
      by (simp add: hdelete_hget)
    ultimately show ?thesis by force
  qed
qed

lemma registryChallenge_parsed:
  "parseAuthenticate registryChallenge = Inr (''https://auth.docker.io/token'', ''registry.docker.io'')"
  by code_simp

lemma dockerRequest_scope:
  "getScopeFromUrl (rq_pathname dockerRequest) (rq_effectivePath dockerRequest)
     (rq_platform dockerRequest) = ''repository:library/nginx:pull''"
  by code_simp

lemma lower_authorization:
  "toLowerCase ''Authorization'' = ''authorization''"
  "toLowerCase ''WWW-Authenticate'' = ''www-authenticate''"
  "toLowerCase ''Location'' = ''location''"
  by code_simp+

lemma dockerRequest_simps:
  "rq_isDocker dockerRequest" "rq_method dockerRequest = ''GET''"
  "rq_targetUrl dockerRequest = ''https://registry-1.docker.io/v2/nginx/blobs/sha256:0a1b''"
  "isProtocol dockerRequest"
  "MAX_RETRIES (rq_config dockerRequest) = 3"
  "finalFetchOptions dockerRequest =
     \<lparr> fo_method = ''GET'',
       fo_headers = [''accept'' \<mapsto> ''*/*'', ''user-agent'' \<mapsto> ''git/2.34.1''],
       fo_redirect = Manual, fo_body = False, fo_cf = False \<rparr>"
  "fo_headers (rq_fetchOptions dockerRequest)
     = [''accept'' \<mapsto> ''*/*'', ''user-agent'' \<mapsto> ''git/2.34.1'']"
  by (simp_all add: dockerRequest_def isProtocol_def finalFetchOptions_def default_config)

lemma showInt_0: "showInt 0 = ''0''"
  by code_simp

text \<open>
  Claim C6 on a registry that redirects the authorised retry to a blob store: the branch
  within the first attempt of the handler, and what the handler returns.
\<close>

theorem docker_retry_redirect_drops_authorization_witness:
  "\<exists>followOptions.
     dockerAuthRetry (exampleWorld registryUpstream) dockerRequest
            \<lparr> status = 401, headers = [''www-authenticate'' \<mapsto> registryChallenge],
              body = Some ''{}'' \<rparr>
            [attemptMark 0,
             Called (Fetch ''https://registry-1.docker.io/v2/nginx/blobs/sha256:0a1b''
                      (finalFetchOptions dockerRequest)),
             Marked ''docker_auth_challenge'']
       = (Some (plainResponse 200 ''layer''),
          [attemptMark 0,
           Called (Fetch ''https://registry-1.docker.io/v2/nginx/blobs/sha256:0a1b''
                    (finalFetchOptions dockerRequest)),
           Marked ''docker_auth_challenge'',
           Called (FetchToken ''https://auth.docker.io/token'' ''registry.docker.io''
                    ''repository:library/nginx:pull'' []),
           Called (Fetch ''https://registry-1.docker.io/v2/nginx/blobs/sha256:0a1b''
                    \<lparr> fo_method = ''GET'',
                      fo_headers = [''accept'' \<mapsto> ''*/*'',
                                    ''user-agent'' \<mapsto> ''git/2.34.1'',
                                    ''authorization'' \<mapsto> ''Bearer t0k3n''],
                      fo_redirect = Manual, fo_body = False, fo_cf = False \<rparr>),
           Called (Fetch ''https://blobs.example/sha256:0a1b'' followOptions)])
     \<and> hget ''Authorization'' (fo_headers followOptions) = None
     \<and> hget ''User-Agent'' (fo_headers followOptions) = Some ''git/2.34.1''
     \<and> fo_redirect followOptions = Follow
     \<and> handleUpstream (exampleWorld registryUpstream) dockerRequest []
       = (Inr (plainResponse 200 ''layer''),
          [attemptMark 0,
           Called (Fetch ''https://registry-1.docker.io/v2/nginx/blobs/sha256:0a1b''
                    (finalFetchOptions dockerRequest)),
           Marked ''docker_auth_challenge'',
           Called (FetchToken ''https://auth.docker.io/token'' ''registry.docker.io''
                    ''repository:library/nginx:pull'' []),
           Called (Fetch ''https://registry-1.docker.io/v2/nginx/blobs/sha256:0a1b''
                    \<lparr> fo_method = ''GET'',
                      fo_headers = [''accept'' \<mapsto> ''*/*'',
                                    ''user-agent'' \<mapsto> ''git/2.34.1'',
                                    ''authorization'' \<mapsto> ''Bearer t0k3n''],
                      fo_redirect = Manual, fo_body = False, fo_cf = False \<rparr>),
           Called (Fetch ''https://blobs.example/sha256:0a1b'' followOptions),
           Marked ''success'', Marked ''complete''])"
proof -
  let ?w = "exampleWorld registryUpstream"
  let ?resp = "\<lparr> status = 401, headers = [''www-authenticate'' \<mapsto> registryChallenge],
              body = Some ''{}'' \<rparr>"
  let ?target = "''https://registry-1.docker.io/v2/nginx/blobs/sha256:0a1b''"
  let ?main = "Fetch ?target (finalFetchOptions dockerRequest)"
  let ?tr = "[attemptMark 0, Called ?main, Marked ''docker_auth_challenge'']"
  let ?retryOptions = "\<lparr> fo_method = ''GET'',
                      fo_headers = [''accept'' \<mapsto> ''*/*'',
                                    ''user-agent'' \<mapsto> ''git/2.34.1'',
                                    ''authorization'' \<mapsto> ''Bearer t0k3n''],
                      fo_redirect = Manual, fo_body = False, fo_cf = False \<rparr>"
  let ?redirect = "\<lparr> status = 307,
                  headers = [''location'' \<mapsto> ''https://blobs.example/sha256:0a1b''],
                  body = None \<rparr>"
  let ?tokenCall = "FetchToken ''https://auth.docker.io/token''
                ''registry.docker.io'' ''repository:library/nginx:pull'' []"
  have ro: "?retryOptions = (finalFetchOptions dockerRequest)
              \<lparr> fo_headers := hset ''Authorization'' (''Bearer '' @ ''t0k3n'')
                                (fo_headers (rq_fetchOptions dockerRequest)),
                fo_redirect := Manual \<rparr>"
    by (simp add: dockerRequest_simps hset_def lower_authorization)
  have rt: "w_upstream ?w (?tr @ [Called ?tokenCall])
            (Fetch (rq_targetUrl dockerRequest) ?retryOptions) = Inr ?redirect"
    by (simp add: exampleWorld_simps registryUpstream_def dockerRequest_simps(3) hget_def
        lower_authorization)
  have ne: "registryChallenge \<noteq> []"
    by (simp add: registryChallenge_def)
  have "hget ''WWW-Authenticate'' (headers ?resp) = Some registryChallenge
      \<and> registryChallenge \<noteq> []
      \<and> parseAuthenticate registryChallenge
          = Inr (''https://auth.docker.io/token'', ''registry.docker.io'')
      \<and> ''repository:library/nginx:pull''
          = getScopeFromUrl (rq_pathname dockerRequest) (rq_effectivePath dockerRequest)
              (rq_platform dockerRequest)
      \<and> w_upstream ?w ?tr ?tokenCall = Inr (plainResponse 200 ''t0k3n'')
      \<and> ok (plainResponse 200 ''t0k3n'')
      \<and> w_tokenOf ?w (bodyText (plainResponse 200 ''t0k3n'')) = Some ''t0k3n''
      \<and> ?retryOptions = (finalFetchOptions dockerRequest)
              \<lparr> fo_headers := hset ''Authorization'' (''Bearer '' @ ''t0k3n'')
                                (fo_headers (rq_fetchOptions dockerRequest)),
                fo_redirect := Manual \<rparr>
      \<and> w_upstream ?w (?tr @ [Called ?tokenCall])
            (Fetch (rq_targetUrl dockerRequest) ?retryOptions) = Inr ?redirect
      \<and> isRedirectStatus (status ?redirect)
      \<and> hget ''Location'' (headers ?redirect) = Some ''https://blobs.example/sha256:0a1b''
      \<and> ''https://blobs.example/sha256:0a1b'' \<noteq> []"
    using ro rt ne
    by (simp add: registryChallenge_parsed dockerRequest_scope exampleWorld_simps
        exampleWorld_def registryUpstream_def plainResponse_def ok_def bodyText_def
        isRedirectStatus_def hget_def lower_authorization)
  with docker_retry_redirect_drops_authorization
         [of ?resp registryChallenge "''https://auth.docker.io/token''" "''registry.docker.io''"
             "''repository:library/nginx:pull''" dockerRequest ?w ?tr
             "plainResponse 200 ''t0k3n''" "''t0k3n''" ?retryOptions ?redirect
             "''https://blobs.example/sha256:0a1b''"]
  obtain followOptions where
    d: "dockerAuthRetry ?w dockerRequest ?resp ?tr
       = (case w_upstream ?w
                 (?tr @ [Called ?tokenCall, Called (Fetch (rq_targetUrl dockerRequest) ?retryOptions)])
                 (Fetch ''https://blobs.example/sha256:0a1b'' followOptions) of
            Inl e \<Rightarrow> None
          | Inr r \<Rightarrow> if ok r then Some r else None,
          ?tr @ [Called ?tokenCall,
          Called (Fetch (rq_targetUrl dockerRequest) ?retryOptions),
          Called (Fetch ''https://blobs.example/sha256:0a1b'' followOptions)])"
    and hs: "fo_headers followOptions = hdelete ''Authorization'' (fo_headers ?retryOptions)"
    and na: "hget ''Authorization'' (fo_headers followOptions) = None"
    and fl: "fo_redirect followOptions = Follow"
    by blast
  have ua: "hget ''User-Agent'' (fo_headers followOptions) = Some ''git/2.34.1''"
    unfolding hs by code_simp
  let ?t3 = "?tr @ [Called ?tokenCall, Called (Fetch ?target ?retryOptions),
                    Called (Fetch ''https://blobs.example/sha256:0a1b'' followOptions)]"
  from d have d': "dockerAuthRetry ?w dockerRequest ?resp ?tr
       = (Some (plainResponse 200 ''layer''), ?t3)"
    by (simp add: dockerRequest_simps(3) exampleWorld_simps registryUpstream_def ok_def
        plainResponse_def)
  have m: "w_upstream ?w [attemptMark 0] ?main = Inr ?resp"
    by (simp add: exampleWorld_simps registryUpstream_def dockerRequest_simps hget_def
        lower_authorization)
  have ff: "firstFetch ?w dockerRequest None ([] @ [attemptMark 0])
      = (Got ?resp, [attemptMark 0, Called ?main])"
    using m by (simp add: firstFetch_def doCall_def dockerRequest_simps(2,3))
  have fr: "followRedirect ?w (finalFetchOptions dockerRequest) ?resp [attemptMark 0, Called ?main]
      = (Got ?resp, [attemptMark 0, Called ?main])"
    by (simp add: followRedirect_def isRedirectStatus_def)
  have dc: "decide ?w dockerRequest 0 ?resp [attemptMark 0, Called ?main]
      = Inr (Break (plainResponse 200 ''layer''), ?t3 @ [Marked ''success''])"
    using d' by (simp add: decide_def ok_def dockerRequest_simps(1))
  have at: "attempt ?w dockerRequest 0 None []
      = Inr (Break (plainResponse 200 ''layer''), ?t3 @ [Marked ''success''])"
    using ff fr dc by (simp add: attempt_def dockerRequest_simps(1))
  have lp: "retryLoop ?w dockerRequest 0 None []
      = Inr (Some (plainResponse 200 ''layer''), ?t3 @ [Marked ''success''])"
    using at by (subst retryLoop.simps) (simp add: dockerRequest_simps(5))
  have pr: "processResponse ?w dockerRequest (Some (plainResponse 200 ''layer''))
        (?t3 @ [Marked ''success''])
      = Inr (plainResponse 200 ''layer'', ?t3 @ [Marked ''success''])"
  proof -
    have "rq_platform dockerRequest = ''cr-docker''" by (simp add: dockerRequest_def)
    then have "rewriteBody dockerRequest (plainResponse 200 ''layer'') = StreamBody ''layer''"
      by (simp add: rewriteBody_def plainResponse_def)
    moreover have "successHeaders dockerRequest (plainResponse 200 ''layer'') = Map.empty"
      by (simp add: successHeaders_def dockerRequest_simps(4) plainResponse_def)
    moreover have "cacheStore ?w dockerRequest r t = (r, t)" for r t
      by (simp add: cacheStore_def dockerRequest_simps(4))
    ultimately show ?thesis
      by (simp add: processResponse_def ok_def newResponse_def) (simp add: plainResponse_def)
  qed
  have hu: "handleUpstream ?w dockerRequest []
      = (Inr (plainResponse 200 ''layer''), ?t3 @ [Marked ''success'', Marked ''complete''])"
    using lp pr by (simp add: handleUpstream_def afterLoop_def dockerRequest_simps(4))
  from d' na ua fl hu show ?thesis
    by (intro exI [of _ followOptions]) simp
qed

subsection \<open>Cache store\<close>





















end
